theory Spec2Isabelle
  imports Main
begin

section \<open>Livestatus query parsing: \<^verbatim>\<open>ParsedQuery.cc\<close>\<close>

text \<open>
  A shallow embedding of \<^verbatim>\<open>packages/livestatus/src/ParsedQuery.cc\<close> and of
  \<^verbatim>\<open>TableServiceGroups::addColumns\<close>. A \<^verbatim>\<open>std::string_view\<close> is a
  \<^typ>\<open>string\<close>; a position of type \<^verbatim>\<open>size_t\<close> that may be \<^verbatim>\<open>npos\<close> is a
  \<^typ>\<open>nat option\<close> with \<^const>\<open>None\<close> for \<^verbatim>\<open>npos\<close>; a thrown
  \<^verbatim>\<open>std::runtime_error\<close> is a value carrying the text of \<^verbatim>\<open>what()\<close>.
\<close>

subsection \<open>String views\<close>

text \<open>
  Modelled from the spec: \<^verbatim>\<open>mk::whitespace\<close> is declared in \<^verbatim>\<open>StringUtils.h\<close>, which is
  not among the sources. The spec (4.1) calls it the ASCII whitespace set: space, \<^verbatim>\<open>\t\<close>,
  \<^verbatim>\<open>\n\<close>, \<^verbatim>\<open>\v\<close>, \<^verbatim>\<open>\f\<close>, \<^verbatim>\<open>\r\<close>. No general theorem below unfolds it.
\<close>
definition whitespace :: string where
  "whitespace = [CHR '' '', CHR 0x09, CHR 0x0A, CHR 0x0B, CHR 0x0C, CHR 0x0D]"

text \<open>\<^verbatim>\<open>std::min(str.size(), pos)\<close> where \<^verbatim>\<open>pos\<close> may be \<^verbatim>\<open>npos\<close>, the largest \<^verbatim>\<open>size_t\<close>.\<close>
definition min_npos :: "nat \<Rightarrow> nat option \<Rightarrow> nat" where
  "min_npos n pos = (case pos of None \<Rightarrow> n | Some p \<Rightarrow> min n p)"

text \<open>\<^verbatim>\<open>str.find(c)\<close>: the index of the first \<^verbatim>\<open>c\<close>, or \<^verbatim>\<open>npos\<close>.\<close>
definition find_char :: "string \<Rightarrow> char \<Rightarrow> nat option" where
  "find_char str c =
     (let n = length (takeWhile (\<lambda>x. x \<noteq> c) str)
      in if n < length str then Some n else None)"

text \<open>\<^verbatim>\<open>str.find_first_of(chars)\<close>: the index of the first character that is in \<^verbatim>\<open>chars\<close>.\<close>
definition find_first_of :: "string \<Rightarrow> string \<Rightarrow> nat option" where
  "find_first_of str chars =
     (let n = length (takeWhile (\<lambda>x. x \<notin> set chars) str)
      in if n < length str then Some n else None)"

text \<open>\<^verbatim>\<open>str.find_first_not_of(chars, pos)\<close>: the index, from \<^verbatim>\<open>pos\<close> on, of the first
  character that is not in \<^verbatim>\<open>chars\<close>.\<close>
definition find_first_not_of :: "string \<Rightarrow> string \<Rightarrow> nat \<Rightarrow> nat option" where
  "find_first_not_of str chars pos =
     (let n = pos + length (takeWhile (\<lambda>x. x \<in> set chars) (drop pos str))
      in if n < length str then Some n else None)"

text \<open>\<^verbatim>\<open>str.substr(0, count)\<close>, where \<^verbatim>\<open>count\<close> may be \<^verbatim>\<open>npos\<close>.\<close>
definition substr0 :: "string \<Rightarrow> nat option \<Rightarrow> string" where
  "substr0 str count = (case count of None \<Rightarrow> str | Some k \<Rightarrow> take k str)"

text \<open>\<^verbatim>\<open>str.remove_prefix(n)\<close>; every call site bounds \<^verbatim>\<open>n\<close> by the size.\<close>
definition remove_prefix :: "nat \<Rightarrow> string \<Rightarrow> string" where
  "remove_prefix n str = drop n str"

text \<open>The idiom \<^verbatim>\<open>line.remove_prefix(std::min(line.size(), line.find_first_not_of(mk::whitespace)))\<close>.\<close>
definition skip_whitespace :: "string \<Rightarrow> string" where
  "skip_whitespace str =
     remove_prefix (min_npos (length str) (find_first_not_of str whitespace 0)) str"

subsection \<open>Lexical helpers\<close>

text \<open>\<^verbatim>\<open>nextStringArgument\<close> returns the argument and the advanced view (the parameter is a
  reference), or throws.\<close>
definition nextStringArgument :: "string \<Rightarrow> string + (string \<times> string)" where
  "nextStringArgument str0 =
     (let str = skip_whitespace str0
      in if str = [] then Inl ''missing argument''
         else let argument = substr0 str (find_first_of str whitespace)
              in Inr (argument, remove_prefix (length argument) str))"

datatype errc = errc_ok | invalid_argument | result_out_of_range

definition is_digit :: "char \<Rightarrow> bool" where
  "is_digit c = (48 \<le> (of_char c :: nat) \<and> (of_char c :: nat) \<le> 57)"

definition digits_value :: "string \<Rightarrow> nat" where
  "digits_value ds = foldl (\<lambda>acc c. 10 * acc + ((of_char c :: nat) - 48)) 0 ds"

text \<open>
  \<^verbatim>\<open>std::from_chars(first, last, value)\<close> for a 32-bit \<^verbatim>\<open>int\<close> in base 10: an optional
  minus sign, then the longest run of digits. It returns how many characters were consumed
  (\<^verbatim>\<open>ptr - first\<close>), the error code and the value, which keeps its initial 0 on an error.
\<close>
definition from_chars_int :: "string \<Rightarrow> nat \<times> errc \<times> int" where
  "from_chars_int s =
     (let neg = (s \<noteq> [] \<and> hd s = CHR ''-'');
          body = (if neg then tl s else s);
          ds = takeWhile is_digit body;
          v = (if neg then - int (digits_value ds) else int (digits_value ds))
      in if ds = [] then (0, invalid_argument, 0)
         else if v < - (2 ^ 31) \<or> 2 ^ 31 \<le> v
              then ((if neg then 1 else 0) + length ds, result_out_of_range, 0)
              else ((if neg then 1 else 0) + length ds, errc_ok, v))"

text \<open>The result is never negative, so it is returned as a \<^typ>\<open>nat\<close> (below \<open>2 ^ 31\<close>).\<close>
definition nextNonNegativeIntegerArgument :: "string \<Rightarrow> string + (nat \<times> string)" where
  "nextNonNegativeIntegerArgument str =
     (case nextStringArgument str of
        Inl e \<Rightarrow> Inl e
      | Inr (argument, rest) \<Rightarrow>
          (case from_chars_int argument of
             (ptr, ec, v) \<Rightarrow>
               if ec \<noteq> errc_ok \<or> ptr \<noteq> length argument \<or> v < 0
               then Inl ''expected non-negative integer''
               else Inr (nat v, rest)))"

definition checkNoArguments :: "string \<Rightarrow> string + unit" where
  "checkNoArguments str = (if str \<noteq> [] then Inl ''superfluous argument(s)'' else Inr ())"

text \<open>\<^verbatim>\<open>std::to_string\<close> of a non-negative \<^verbatim>\<open>int\<close>.\<close>
fun to_string :: "nat \<Rightarrow> string" where
  "to_string n =
     (if n < 10 then [char_of (48 + n)]
      else to_string (n div 10) @ [char_of (48 + n mod 10)])"

text \<open>The text of the \<^verbatim>\<open>std::runtime_error\<close> that \<^verbatim>\<open>stack_underflow\<close> throws.\<close>
definition stack_underflow :: "nat \<Rightarrow> nat \<Rightarrow> string" where
  "stack_underflow expected actual =
     ''cannot combine filters: expecting '' @ to_string expected @ '' '' @
     (if expected = 1 then ''filter'' else ''filters'') @
     '', but only '' @ to_string actual @ '' '' @
     (if actual = 1 then ''is'' else ''are'') @ '' on stack''"

subsection \<open>Columns and the service group table\<close>

datatype ServiceListState_Type =
    worst_state | num | num_ok | num_warn | num_crit | num_unknown | num_pending
  | num_handled_problems | num_unhandled_problems
  | num_hard_ok | num_hard_warn | num_hard_crit | num_hard_unknown

text \<open>The column classes the sources construct. The extractor (a lambda over the row, or
  the offsets) is not modelled: no property below reads a row's data.\<close>
datatype ColumnClass =
    StringColumn
  | ServiceGroupMembersColumn bool
  | IntLambdaColumn ServiceListState_Type
  | NullColumn

datatype Column =
  Column (Column_name: string) (Column_description: string) (Column_class: ColumnClass)

text \<open>
  Modelled from the spec: \<^verbatim>\<open>Table::addColumn\<close> is declared in \<^verbatim>\<open>Table.h\<close>, which is not
  among the sources. By the spec (4.7, 8.5) a table keeps its columns in registration
  order, so a table is the list of its columns and registering a column appends it.
\<close>
definition addColumn :: "Column \<Rightarrow> Column list \<Rightarrow> Column list" where
  "addColumn col table = table @ [col]"

text \<open>
  Modelled from the spec: \<^verbatim>\<open>Table::any_column\<close> is declared in \<^verbatim>\<open>Table.h\<close>, which is not
  among the sources. By the spec (4.7, 8.5) it visits the columns in registration order;
  as its name says it stops at the first column for which the predicate returns true.
  The predicate of the source mutates the query, so it is a state transformer here.
\<close>
fun any_column :: "Column list \<Rightarrow> (Column \<Rightarrow> 's \<Rightarrow> bool \<times> 's) \<Rightarrow> 's \<Rightarrow> bool \<times> 's" where
  "any_column [] pred s = (False, s)"
| "any_column (c # cs) pred s =
     (case pred c s of (b, s') \<Rightarrow> if b then (True, s') else any_column cs pred s')"

text \<open>\<^verbatim>\<open>TableServiceGroups::addColumns(table, prefix, offsets)\<close>: the calls of
  \<^verbatim>\<open>table->addColumn\<close>, in the order of the source.\<close>
definition TableServiceGroups_addColumns :: "string \<Rightarrow> Column list \<Rightarrow> Column list" where
  "TableServiceGroups_addColumns prefix table =
     foldl (\<lambda>t col. addColumn col t) table
       [Column (prefix @ ''name'')
          ''The name of the service group'' StringColumn,
        Column (prefix @ ''alias'')
          ''An alias of the service group'' StringColumn,
        Column (prefix @ ''notes'')
          ''Optional additional notes about the service group'' StringColumn,
        Column (prefix @ ''notes_url'')
          ''An optional URL to further notes on the service group'' StringColumn,
        Column (prefix @ ''action_url'')
          ''An optional URL to custom notes or actions on the service group'' StringColumn,
        Column (prefix @ ''members'')
          ''A list of all members of the service group as host/service pairs''
          (ServiceGroupMembersColumn False),
        Column (prefix @ ''members_with_state'')
          ''A list of all members of the service group with state and has_been_checked''
          (ServiceGroupMembersColumn True),
        Column (prefix @ ''worst_service_state'')
          ''The worst soft state of all of the groups services (OK <= WARN <= UNKNOWN <= CRIT)''
          (IntLambdaColumn worst_state),
        Column (prefix @ ''num_services'')
          ''The total number of services in the group'' (IntLambdaColumn num),
        Column (prefix @ ''num_services_ok'')
          ''The number of services in the group that are OK'' (IntLambdaColumn num_ok),
        Column (prefix @ ''num_services_warn'')
          ''The number of services in the group that are WARN'' (IntLambdaColumn num_warn),
        Column (prefix @ ''num_services_crit'')
          ''The number of services in the group that are CRIT'' (IntLambdaColumn num_crit),
        Column (prefix @ ''num_services_unknown'')
          ''The number of services in the group that are UNKNOWN'' (IntLambdaColumn num_unknown),
        Column (prefix @ ''num_services_pending'')
          ''The number of services in the group that are PENDING'' (IntLambdaColumn num_pending),
        Column (prefix @ ''num_services_handled_problems'')
          ''The number of services in the group that have handled problems''
          (IntLambdaColumn num_handled_problems),
        Column (prefix @ ''num_services_unhandled_problems'')
          ''The number of services in the group that have unhandled problems''
          (IntLambdaColumn num_unhandled_problems),
        Column (prefix @ ''num_services_hard_ok'')
          ''The number of services in the group that are OK'' (IntLambdaColumn num_hard_ok),
        Column (prefix @ ''num_services_hard_warn'')
          ''The number of services in the group that are WARN'' (IntLambdaColumn num_hard_warn),
        Column (prefix @ ''num_services_hard_crit'')
          ''The number of services in the group that are CRIT'' (IntLambdaColumn num_hard_crit),
        Column (prefix @ ''num_services_hard_unknown'')
          ''The number of services in the group that are UNKNOWN''
          (IntLambdaColumn num_hard_unknown)]"

text \<open>The constructor \<^verbatim>\<open>TableServiceGroups::TableServiceGroups\<close>: \<^verbatim>\<open>addColumns(this, "", ...)\<close>
  on a table that has no column yet.\<close>
definition TableServiceGroups :: "Column list" where
  "TableServiceGroups = TableServiceGroups_addColumns [] []"

subsection \<open>Filters\<close>

datatype Kind = Kind_row | Kind_stats | Kind_wait_condition

text \<open>
  Modelled from the spec: the filter classes (\<^verbatim>\<open>Filter.h\<close>, \<^verbatim>\<open>AndingFilter.h\<close>,
  \<^verbatim>\<open>OringFilter.h\<close>) are not among the sources. By the spec (2.4, 4.4) a filter is a tree
  whose nodes carry a kind: a leaf of a column, a relational operator \<open>'o\<close> and the
  right-hand side literal, a conjunction, or a disjunction. The identity element of a
  connective is its node without children.
\<close>
datatype 'o Filter =
    ColumnFilter Kind Column 'o string
  | AndingFilter Kind "'o Filter list"
  | OringFilter Kind "'o Filter list"

text \<open>Modelled from the spec: the smart constructors \<^verbatim>\<open>AndingFilter::make\<close> and
  \<^verbatim>\<open>OringFilter::make\<close> (4.4): no subfilter gives the identity element, one subfilter gives
  that subfilter unchanged, otherwise a node of the given kind.\<close>
definition AndingFilter_make :: "Kind \<Rightarrow> 'o Filter list \<Rightarrow> 'o Filter" where
  "AndingFilter_make kind subfilters =
     (if length subfilters = 0 then AndingFilter kind []
      else if length subfilters = 1 then hd subfilters
      else AndingFilter kind subfilters)"

text \<open>Modelled from the spec: \<^verbatim>\<open>OringFilter::make\<close> (4.4), as above.\<close>
definition OringFilter_make :: "Kind \<Rightarrow> 'o Filter list \<Rightarrow> 'o Filter" where
  "OringFilter_make kind subfilters =
     (if length subfilters = 0 then OringFilter kind []
      else if length subfilters = 1 then hd subfilters
      else OringFilter kind subfilters)"

text \<open>Modelled from the spec: \<^verbatim>\<open>Filter::negate\<close> (4.4), De Morgan at the connectives and the
  complement of the operator (the parameter \<open>complement\<close>) at a leaf.\<close>
fun negate :: "('o \<Rightarrow> 'o) \<Rightarrow> 'o Filter \<Rightarrow> 'o Filter" where
  "negate complement (ColumnFilter kind col rel_op rhs) =
     ColumnFilter kind col (complement rel_op) rhs"
| "negate complement (AndingFilter kind subfilters) =
     OringFilter kind (map (negate complement) subfilters)"
| "negate complement (OringFilter kind subfilters) =
     AndingFilter kind (map (negate complement) subfilters)"

text \<open>Modelled from the spec: \<^verbatim>\<open>Filter::accepts(row, user, timezone_offset)\<close> (4.4). What a
  leaf accepts is the column's business (the parameter \<open>leaf\<close>); a conjunction accepts
  what all its children accept, a disjunction what one of them accepts.\<close>
fun accepts ::
  "(Column \<Rightarrow> 'o \<Rightarrow> string \<Rightarrow> 'r \<Rightarrow> 'u \<Rightarrow> int \<Rightarrow> bool) \<Rightarrow> 'o Filter \<Rightarrow> 'r \<Rightarrow> 'u \<Rightarrow> int \<Rightarrow> bool" where
  "accepts leaf (ColumnFilter kind col rel_op rhs) r u tz = leaf col rel_op rhs r u tz"
| "accepts leaf (AndingFilter kind subfilters) r u tz =
     list_all (\<lambda>f. accepts leaf f r u tz) subfilters"
| "accepts leaf (OringFilter kind subfilters) r u tz =
     list_ex (\<lambda>f. accepts leaf f r u tz) subfilters"

subsection \<open>Aggregations and stats columns\<close>

text \<open>
  The value domain is \<^verbatim>\<open>double\<close>. The two classes below only compare values and store
  them, so the domain is any type with a \<open>0\<close> and a comparison \<open><\<close>, of which nothing is
  assumed (for a NaN every comparison is false).
\<close>
record 'd MinAggregation =
  min_first :: bool
  min_sum :: 'd

definition MinAggregation_new :: "('d::zero) MinAggregation" where
  "MinAggregation_new = \<lparr>min_first = True, min_sum = 0\<rparr>"

definition MinAggregation_update :: "('d::ord) \<Rightarrow> 'd MinAggregation \<Rightarrow> 'd MinAggregation" where
  "MinAggregation_update v a =
     (if min_first a \<or> v < min_sum a then a\<lparr>min_sum := v\<rparr> else a)\<lparr>min_first := False\<rparr>"

definition MinAggregation_value :: "'d MinAggregation \<Rightarrow> 'd" where
  "MinAggregation_value a = min_sum a"

record 'd MaxAggregation =
  max_first :: bool
  max_sum :: 'd

definition MaxAggregation_new :: "('d::zero) MaxAggregation" where
  "MaxAggregation_new = \<lparr>max_first = True, max_sum = 0\<rparr>"

definition MaxAggregation_update :: "('d::ord) \<Rightarrow> 'd MaxAggregation \<Rightarrow> 'd MaxAggregation" where
  "MaxAggregation_update v a =
     (if max_first a \<or> v > max_sum a then a\<lparr>max_sum := v\<rparr> else a)\<lparr>max_first := False\<rparr>"

definition MaxAggregation_value :: "'d MaxAggregation \<Rightarrow> 'd" where
  "MaxAggregation_value a = max_sum a"

text \<open>An \<^verbatim>\<open>AggregationFactory\<close> is a closure that makes a fresh aggregation of one class:
  it is named by that class.\<close>
datatype AggregationFactory =
    SumAggregation | MinAggregation | MaxAggregation | AvgAggregation
  | StdAggregation | SumInvAggregation | AvgInvAggregation

text \<open>The map \<^verbatim>\<open>stats_ops\<close>, as an association list.\<close>
definition stats_ops :: "(string \<times> AggregationFactory) list" where
  "stats_ops =
     [(''sum'', SumAggregation), (''min'', MinAggregation), (''max'', MaxAggregation),
      (''avg'', AvgAggregation), (''std'', StdAggregation),
      (''suminv'', SumInvAggregation), (''avginv'', AvgInvAggregation)]"

datatype 'o StatsColumn =
    StatsColumnCount "'o Filter"
  | StatsColumnOp AggregationFactory Column

text \<open>Modelled from the spec: \<^verbatim>\<open>StatsColumn::stealFilter\<close> (3, 4.5) is not among the sources.
  A count hands back its filter; for an aggregating column the call fails. The spec does not
  give the text of that failure, so it is the parameter \<open>what\<close>.\<close>
fun stealFilter :: "string \<Rightarrow> 'o StatsColumn \<Rightarrow> string + 'o Filter" where
  "stealFilter what (StatsColumnCount f) = Inr f"
| "stealFilter what (StatsColumnOp factory col) = Inl what"

subsection \<open>The query and its collaborators\<close>

text \<open>The values of \<^verbatim>\<open>OutputFormat\<close> and of \<^verbatim>\<open>OutputBuffer::ResponseHeader\<close> that the
  source names (\<^verbatim>\<open>ResponseHeader::off\<close> is \<open>ResponseHeader_off\<close>).\<close>
datatype OutputFormat = csv | broken_csv | json | python3

datatype ResponseHeader = ResponseHeader_off | fixed16

text \<open>Modelled from the spec: \<^verbatim>\<open>OutputBuffer::ResponseCode\<close> is declared in a header that is
  not among the sources. The source names \<^verbatim>\<open>bad_request\<close>; the spec (7) has
  \<^verbatim>\<open>internal_error\<close> beside it.\<close>
datatype ResponseCode = bad_request | internal_error

text \<open>The output buffer is seen through the calls the constructor makes on it, in order.\<close>
datatype OutputCall = setError ResponseCode string | setResponseHeader ResponseHeader

text \<open>The owning pointer to a \<^verbatim>\<open>User\<close>: the unrestricted user the constructor starts
  with, or what the core's lookup returned.\<close>
datatype 'u User = NoAuthUser | CoreUser 'u

text \<open>
  \<^verbatim>\<open>ICore::find_user\<close>, which the constructor wraps into the \<^verbatim>\<open>find_user\<close> it hands to
  \<^verbatim>\<open>parseAuthUserHeader\<close>, is declared in \<^verbatim>\<open>ICore.h\<close>, which is not among the sources. It is
  a parameter: for a name it returns a user or throws a \<^verbatim>\<open>std::runtime_error\<close>, whose text
  is on the left. What it does for a name that the core does not know is left open.
\<close>
type_synonym 'u find_user = "string \<Rightarrow> string + 'u User"

text \<open>
  What the constructor reaches through \<^verbatim>\<open>table\<close> and through functions declared in headers
  that are not among the sources. Each is a parameter; a function that can throw a
  \<^verbatim>\<open>std::runtime_error\<close> returns the text of the error on the left.
  \<^item> \<open>table_name\<close>, \<open>table_columns\<close>, \<open>table_column\<close>, \<open>table_get\<close>: \<^verbatim>\<open>Table::name\<close>, the
    columns \<^verbatim>\<open>any_column\<close> visits, \<^verbatim>\<open>Table::column\<close> and \<^verbatim>\<open>Table::get\<close> (a null row is
    \<^const>\<open>None\<close>).
  \<^item> \<open>core_find_user\<close>: \<^verbatim>\<open>table.core()->find_user\<close>, see \<^typ>\<open>'u find_user\<close>.
  \<^item> \<open>relationalOperatorForName\<close>, \<open>complement\<close>: \<^verbatim>\<open>opids.h\<close>.
  \<^item> \<open>createFilter\<close>: \<^verbatim>\<open>Column::createFilter\<close>.
  \<^item> \<open>Triggers_find\<close>: \<^verbatim>\<open>Triggers::find\<close>.
  \<^item> \<open>stealFilter_what\<close>: the text of the error of \<^const>\<open>stealFilter\<close>.
  \<^item> \<open>system_clock_now\<close>, \<open>steady_clock_now\<close>: the reading of the clock, in ticks, while
    the line of the given index is parsed; \<open>system_clock_hz\<close>, \<open>steady_clock_hz\<close>: the ticks
    of each clock in one second (its \<^verbatim>\<open>period\<close>, which the implementation chooses).
\<close>
record ('o, 'u, 'r, 'g) Env =
  table_name :: string
  table_columns :: "Column list"
  table_column :: "string \<Rightarrow> string + Column"
  table_get :: "string \<Rightarrow> 'r option"
  core_find_user :: "'u find_user"
  relationalOperatorForName :: "string \<Rightarrow> string + 'o"
  complement :: "'o \<Rightarrow> 'o"
  createFilter :: "Column \<Rightarrow> Kind \<Rightarrow> 'o \<Rightarrow> string \<Rightarrow> string + 'o Filter"
  Triggers_find :: "string \<Rightarrow> string + 'g"
  stealFilter_what :: string
  system_clock_now :: "nat \<Rightarrow> int"
  system_clock_hz :: int
  steady_clock_now :: "nat \<Rightarrow> int"
  steady_clock_hz :: int

text \<open>
  Modelled from the spec: the class \<^verbatim>\<open>ParsedQuery\<close> is declared in \<^verbatim>\<open>ParsedQuery.h\<close>, which
  is not among the sources. The fields are the members the source assigns, with the types
  of the spec's data model (3). \<open>row_filter\<close> is the member \<^verbatim>\<open>filter\<close>; the two filter roots
  are null pointers (\<^const>\<open>None\<close>) until the constructor's last statements. A time point of
  the steady clock is a number of ticks; \<open>timezone_offset\<close> is in seconds.
\<close>
record ('o, 'u, 'r, 'g) ParsedQuery =
  all_column_names :: "string set"
  columns :: "Column list"
  row_filter :: "'o Filter option"
  user :: "'u User"
  limit :: "nat option"
  time_limit :: "(nat \<times> int) option"
  separators :: "string \<times> string \<times> string \<times> string"
  show_column_headers :: bool
  output_format :: OutputFormat
  keepalive :: bool
  response_header :: ResponseHeader
  wait_condition :: "'o Filter option"
  wait_timeout :: "nat option"
  wait_trigger :: "'g option"
  wait_object :: "'r option"
  timezone_offset :: int
  stats_columns :: "'o StatsColumn list"

text \<open>
  What a parser of one line leaves: it returned (\<open>Done\<close>) or threw a \<^verbatim>\<open>std::runtime_error\<close>
  (\<open>Raised\<close>, with the text of the error). Both carry the state the parser mutates through
  its reference parameters and \<^verbatim>\<open>this\<close>, as it is at that moment.
\<close>
datatype 's Outcome = Done 's | Raised string 's

text \<open>The state a parser leaves, whether it returned or threw.\<close>
definition state_of :: "'s Outcome \<Rightarrow> 's" where
  "state_of r = (case r of Done s \<Rightarrow> s | Raised e s \<Rightarrow> s)"

text \<open>Evaluate a call that may throw; on an error the state is as it is now.\<close>
definition attempt :: "string + 'a \<Rightarrow> 's \<Rightarrow> ('a \<Rightarrow> 's Outcome) \<Rightarrow> 's Outcome" where
  "attempt r s k = (case r of Inl e \<Rightarrow> Raised e s | Inr a \<Rightarrow> k a)"

subsection \<open>The parsers of the header lines\<close>

text \<open>The loop of \<^verbatim>\<open>parseAndOrLine\<close>: \<open>i\<close> counts the filters moved from the back of the stack
  to the back of \<open>subfilters\<close>.\<close>
function pop_subfilters ::
  "nat \<Rightarrow> nat \<Rightarrow> 'f list \<Rightarrow> 'f list \<Rightarrow> ('f list \<times> 'f list) Outcome" where
  "pop_subfilters number i subfilters filters =
     (if i < number then
        (if filters = [] then Raised (stack_underflow number i) (subfilters, filters)
         else pop_subfilters number (Suc i) (subfilters @ [last filters]) (butlast filters))
      else Done (subfilters, filters))"
  by pat_completeness auto
termination
  by (relation "measure (\<lambda>(number, i, subfilters, filters). number - i)") auto

definition parseAndOrLine ::
  "string \<Rightarrow> Kind \<Rightarrow> (Kind \<Rightarrow> 'f list \<Rightarrow> 'f) \<Rightarrow> 'f list \<Rightarrow> 'f list Outcome" where
  "parseAndOrLine line kind connective filters =
     attempt (nextNonNegativeIntegerArgument line) filters (\<lambda>(number, rest).
       case pop_subfilters number 0 [] filters of
         Raised e (subfilters, filters') \<Rightarrow> Raised e filters'
       | Done (subfilters, filters') \<Rightarrow>
           Done (filters' @ [connective kind (rev subfilters)]))"

definition parseNegateLine ::
  "('o \<Rightarrow> 'o) \<Rightarrow> string \<Rightarrow> 'o Filter list \<Rightarrow> 'o Filter list Outcome" where
  "parseNegateLine compl line filters =
     attempt (checkNoArguments line) filters (\<lambda>_.
       if filters = [] then Raised (stack_underflow 1 0) filters
       else let top = last filters
            in Done (butlast filters @ [negate compl top]))"

text \<open>The loop of \<^verbatim>\<open>parseStatsAndOrLine\<close>; \<^verbatim>\<open>stealFilter\<close> is called before \<^verbatim>\<open>pop_back\<close>.\<close>
function steal_subfilters ::
  "string \<Rightarrow> nat \<Rightarrow> nat \<Rightarrow> 'o Filter list \<Rightarrow> 'o StatsColumn list
   \<Rightarrow> ('o Filter list \<times> 'o StatsColumn list) Outcome" where
  "steal_subfilters what number i subfilters stats_cols =
     (if i < number then
        (if stats_cols = [] then Raised (stack_underflow number i) (subfilters, stats_cols)
         else (case stealFilter what (last stats_cols) of
                 Inl e \<Rightarrow> Raised e (subfilters, stats_cols)
               | Inr f \<Rightarrow>
                   steal_subfilters what number (Suc i) (subfilters @ [f]) (butlast stats_cols)))
      else Done (subfilters, stats_cols))"
  by pat_completeness auto
termination
  by (relation "measure (\<lambda>(what, number, i, subfilters, stats_cols). number - i)") auto

definition parseStatsAndOrLine ::
  "string \<Rightarrow> string \<Rightarrow> (Kind \<Rightarrow> 'o Filter list \<Rightarrow> 'o Filter)
   \<Rightarrow> ('o, 'u, 'r, 'g) ParsedQuery \<Rightarrow> ('o, 'u, 'r, 'g) ParsedQuery Outcome" where
  "parseStatsAndOrLine what line connective q =
     attempt (nextNonNegativeIntegerArgument line) q (\<lambda>(number, rest).
       case steal_subfilters what number 0 [] (stats_columns q) of
         Raised e (subfilters, stats_cols) \<Rightarrow> Raised e (q\<lparr>stats_columns := stats_cols\<rparr>)
       | Done (subfilters, stats_cols) \<Rightarrow>
           Done (q\<lparr>stats_columns :=
                     stats_cols @ [StatsColumnCount (connective Kind_stats (rev subfilters))]\<rparr>))"

definition parseStatsNegateLine ::
  "string \<Rightarrow> ('o \<Rightarrow> 'o) \<Rightarrow> string
   \<Rightarrow> ('o, 'u, 'r, 'g) ParsedQuery \<Rightarrow> ('o, 'u, 'r, 'g) ParsedQuery Outcome" where
  "parseStatsNegateLine what compl line q =
     attempt (checkNoArguments line) q (\<lambda>_.
       if stats_columns q = [] then Raised (stack_underflow 1 0) q
       else attempt (stealFilter what (last (stats_columns q))) q (\<lambda>to_negate.
              Done (q\<lparr>stats_columns :=
                        butlast (stats_columns q) @ [StatsColumnCount (negate compl to_negate)]\<rparr>)))"

text \<open>The last three statements of \<^verbatim>\<open>parseStatsLine\<close>.\<close>
definition push_stats_column ::
  "'o StatsColumn \<Rightarrow> string \<Rightarrow> ('o, 'u, 'r, 'g) ParsedQuery \<Rightarrow> ('o, 'u, 'r, 'g) ParsedQuery" where
  "push_stats_column sc column_name q =
     q\<lparr>stats_columns := stats_columns q @ [sc],
       all_column_names := insert column_name (all_column_names q),
       show_column_headers := False\<rparr>"

definition parseStatsLine ::
  "('o, 'u, 'r, 'g) Env \<Rightarrow> string \<Rightarrow> (string \<Rightarrow> string + Column)
   \<Rightarrow> ('o, 'u, 'r, 'g) ParsedQuery \<Rightarrow> ('o, 'u, 'r, 'g) ParsedQuery Outcome" where
  "parseStatsLine env line make_column q =
     attempt (nextStringArgument line) q (\<lambda>(col_or_op, line1).
       case map_of stats_ops col_or_op of
         None \<Rightarrow>
           attempt (nextStringArgument line1) q (\<lambda>(op_name, line2).
           attempt (relationalOperatorForName env op_name) q (\<lambda>rel_op.
             let line3 = skip_whitespace line2
             in attempt (make_column col_or_op) q (\<lambda>col.
                attempt (createFilter env col Kind_stats rel_op line3) q (\<lambda>f.
                  Done (push_stats_column (StatsColumnCount f) col_or_op q)))))
       | Some factory \<Rightarrow>
           attempt (nextStringArgument line1) q (\<lambda>(column_name, line2).
           attempt (make_column column_name) q (\<lambda>col.
             Done (push_stats_column (StatsColumnOp factory col) column_name q))))"

text \<open>\<^verbatim>\<open>parseFilterLine\<close> mutates the stack it is given and \<^verbatim>\<open>all_column_names\<close>.\<close>
definition parseFilterLine ::
  "('o, 'u, 'r, 'g) Env \<Rightarrow> string \<Rightarrow> 'o Filter list \<Rightarrow> (string \<Rightarrow> string + Column)
   \<Rightarrow> ('o, 'u, 'r, 'g) ParsedQuery
   \<Rightarrow> ('o Filter list \<times> ('o, 'u, 'r, 'g) ParsedQuery) Outcome" where
  "parseFilterLine env line filters make_column q =
     attempt (nextStringArgument line) (filters, q) (\<lambda>(column_name, line1).
     attempt (nextStringArgument line1) (filters, q) (\<lambda>(op_name, line2).
     attempt (relationalOperatorForName env op_name) (filters, q) (\<lambda>rel_op.
       let line3 = skip_whitespace line2
       in attempt (make_column column_name) (filters, q) (\<lambda>col.
          attempt (createFilter env col Kind_row rel_op line3) (filters, q) (\<lambda>sub_filter.
            Done (filters @ [sub_filter],
                  q\<lparr>all_column_names := insert column_name (all_column_names q)\<rparr>))))))"

definition parseAuthUserHeader ::
  "string \<Rightarrow> (string \<Rightarrow> string + 'u User)
   \<Rightarrow> ('o, 'u, 'r, 'g) ParsedQuery \<Rightarrow> ('o, 'u, 'r, 'g) ParsedQuery Outcome" where
  "parseAuthUserHeader line find_user q =
     attempt (find_user line) q (\<lambda>u. Done (q\<lparr>user := u\<rparr>))"

text \<open>The loop of \<^verbatim>\<open>parseColumnsLine\<close>. An error of \<^verbatim>\<open>make_column\<close> is caught inside the loop
  and gives a \<^verbatim>\<open>NullColumn\<close>.\<close>
function columns_loop ::
  "(string \<Rightarrow> string + Column) \<Rightarrow> string
   \<Rightarrow> ('o, 'u, 'r, 'g) ParsedQuery \<Rightarrow> ('o, 'u, 'r, 'g) ParsedQuery" where
  "columns_loop make_column line q =
     (if line = [] then q
      else columns_loop make_column
             (remove_prefix
                (min_npos (length line)
                   (find_first_not_of line whitespace
                      (length (substr0 line (find_first_of line whitespace))))) line)
             (q\<lparr>columns := columns q @
                   [case make_column (substr0 line (find_first_of line whitespace)) of
                      Inr col \<Rightarrow> col
                    | Inl e \<Rightarrow> Column (substr0 line (find_first_of line whitespace))
                               ''non-existing column'' NullColumn],
                 all_column_names :=
                   insert (substr0 line (find_first_of line whitespace)) (all_column_names q)\<rparr>))"
  by pat_completeness auto
termination
proof (relation "measure (\<lambda>(make_column, line, q). length line)")
  show "wf (measure (\<lambda>(make_column, line, q). length line))" by simp
next
  fix make_column :: "string \<Rightarrow> string + Column" and line :: string
    and q :: "('o, 'u, 'r, 'g) ParsedQuery"
  assume ne: "line \<noteq> []"
  define name where "name = substr0 line (find_first_of line whitespace)"
  have "0 < min_npos (length line) (find_first_not_of line whitespace (length name))"
  proof (cases "name = []")
    case False
    then show ?thesis using ne
      by (auto simp: min_npos_def find_first_not_of_def Let_def)
  next
    case True
    then have "takeWhile (\<lambda>x. x \<notin> set whitespace) line = []"
      using ne by (auto simp: name_def substr0_def find_first_of_def Let_def split: if_splits)
    then have "hd line \<in> set whitespace"
      using ne by (cases line) (auto split: if_splits)
    then have "takeWhile (\<lambda>x. x \<in> set whitespace) line \<noteq> []"
      using ne by (cases line) auto
    then show ?thesis using ne True
      by (auto simp: min_npos_def find_first_not_of_def Let_def)
  qed
  then show "((make_column,
         remove_prefix
           (min_npos (length line)
              (find_first_not_of line whitespace
                 (length (substr0 line (find_first_of line whitespace))))) line,
         q\<lparr>columns := columns q @
               [case make_column (substr0 line (find_first_of line whitespace)) of
                  Inr col \<Rightarrow> col
                | Inl e \<Rightarrow> Column (substr0 line (find_first_of line whitespace))
                           ''non-existing column'' NullColumn],
             all_column_names :=
               insert (substr0 line (find_first_of line whitespace)) (all_column_names q)\<rparr>),
        make_column, line, q) \<in> measure (\<lambda>(make_column, line, q). length line)"
    using ne by (simp add: remove_prefix_def name_def)
qed

definition parseColumnsLine ::
  "string \<Rightarrow> (string \<Rightarrow> string + Column)
   \<Rightarrow> ('o, 'u, 'r, 'g) ParsedQuery \<Rightarrow> ('o, 'u, 'r, 'g) ParsedQuery Outcome" where
  "parseColumnsLine line make_column q =
     Done ((columns_loop make_column line q)\<lparr>show_column_headers := False\<rparr>)"

text \<open>\<^verbatim>\<open>std::string(1, static_cast<char>(n))\<close>: the byte \<open>n mod 256\<close>.\<close>
definition separator_of :: "nat \<Rightarrow> string" where
  "separator_of n = [char_of n]"

definition parseSeparatorsLine ::
  "string \<Rightarrow> ('o, 'u, 'r, 'g) ParsedQuery \<Rightarrow> ('o, 'u, 'r, 'g) ParsedQuery Outcome" where
  "parseSeparatorsLine line q =
     attempt (nextNonNegativeIntegerArgument line) q (\<lambda>(d, line1).
     attempt (nextNonNegativeIntegerArgument line1) q (\<lambda>(f, line2).
     attempt (nextNonNegativeIntegerArgument line2) q (\<lambda>(l, line3).
     attempt (nextNonNegativeIntegerArgument line3) q (\<lambda>(h, line4).
       Done (q\<lparr>separators :=
                 (separator_of d, separator_of f, separator_of l, separator_of h)\<rparr>)))))"

text \<open>The map \<^verbatim>\<open>formats\<close>, as an association list in the order of its keys (the order in
  which the source iterates the \<^verbatim>\<open>std::map\<close> for the error text).\<close>
definition formats :: "(string \<times> OutputFormat) list" where
  "formats =
     [(''CSV'', csv), (''csv'', broken_csv), (''json'', json),
      (''python'', python3), (''python3'', python3)]"

definition formats_msg :: string where
  "formats_msg =
     foldl (\<lambda>msg entry. msg @ (if msg = [] then [] else '', '') @
                          [CHR 0x27] @ fst entry @ [CHR 0x27]) [] formats"

definition parseOutputFormatLine ::
  "string \<Rightarrow> ('o, 'u, 'r, 'g) ParsedQuery \<Rightarrow> ('o, 'u, 'r, 'g) ParsedQuery Outcome" where
  "parseOutputFormatLine line q =
     attempt (nextStringArgument line) q (\<lambda>(v, rest).
       case map_of formats v of
         None \<Rightarrow> Raised (''missing/invalid output format, use one of '' @ formats_msg) q
       | Some fmt \<Rightarrow> Done (q\<lparr>output_format := fmt\<rparr>))"

definition parseColumnHeadersLine ::
  "string \<Rightarrow> ('o, 'u, 'r, 'g) ParsedQuery \<Rightarrow> ('o, 'u, 'r, 'g) ParsedQuery Outcome" where
  "parseColumnHeadersLine line q =
     attempt (nextStringArgument line) q (\<lambda>(v, rest).
       if v = ''on'' then Done (q\<lparr>show_column_headers := True\<rparr>)
       else if v = ''off'' then Done (q\<lparr>show_column_headers := False\<rparr>)
       else Raised (''expected '' @ [CHR 0x27] @ ''on'' @ [CHR 0x27] @ '' or '' @
                    [CHR 0x27] @ ''off'' @ [CHR 0x27]) q)"

definition parseKeepAliveLine ::
  "string \<Rightarrow> ('o, 'u, 'r, 'g) ParsedQuery \<Rightarrow> ('o, 'u, 'r, 'g) ParsedQuery Outcome" where
  "parseKeepAliveLine line q =
     attempt (nextStringArgument line) q (\<lambda>(v, rest).
       if v = ''on'' then Done (q\<lparr>keepalive := True\<rparr>)
       else if v = ''off'' then Done (q\<lparr>keepalive := False\<rparr>)
       else Raised (''expected '' @ [CHR 0x27] @ ''on'' @ [CHR 0x27] @ '' or '' @
                    [CHR 0x27] @ ''off'' @ [CHR 0x27]) q)"

definition parseResponseHeaderLine ::
  "string \<Rightarrow> ('o, 'u, 'r, 'g) ParsedQuery \<Rightarrow> ('o, 'u, 'r, 'g) ParsedQuery Outcome" where
  "parseResponseHeaderLine line q =
     attempt (nextStringArgument line) q (\<lambda>(v, rest).
       if v = ''off'' then Done (q\<lparr>response_header := ResponseHeader_off\<rparr>)
       else if v = ''fixed16'' then Done (q\<lparr>response_header := fixed16\<rparr>)
       else Raised (''expected '' @ [CHR 0x27] @ ''off'' @ [CHR 0x27] @ '' or '' @
                    [CHR 0x27] @ ''fixed16'' @ [CHR 0x27]) q)"

definition parseLimitLine ::
  "string \<Rightarrow> ('o, 'u, 'r, 'g) ParsedQuery \<Rightarrow> ('o, 'u, 'r, 'g) ParsedQuery Outcome" where
  "parseLimitLine line q =
     attempt (nextNonNegativeIntegerArgument line) q (\<lambda>(n, rest). Done (q\<lparr>limit := Some n\<rparr>))"

text \<open>\<open>now\<close> is the reading of \<^verbatim>\<open>std::chrono::steady_clock::now()\<close> and \<open>hz\<close> the clock's ticks
  in a second.\<close>
definition parseTimelimitLine ::
  "int \<Rightarrow> int \<Rightarrow> string
   \<Rightarrow> ('o, 'u, 'r, 'g) ParsedQuery \<Rightarrow> ('o, 'u, 'r, 'g) ParsedQuery Outcome" where
  "parseTimelimitLine hz now line q =
     attempt (nextNonNegativeIntegerArgument line) q (\<lambda>(duration, rest).
       Done (q\<lparr>time_limit := Some (duration, now + int duration * hz)\<rparr>))"

definition parseWaitTimeoutLine ::
  "string \<Rightarrow> ('o, 'u, 'r, 'g) ParsedQuery \<Rightarrow> ('o, 'u, 'r, 'g) ParsedQuery Outcome" where
  "parseWaitTimeoutLine line q =
     attempt (nextNonNegativeIntegerArgument line) q (\<lambda>(n, rest).
       Done (q\<lparr>wait_timeout := Some n\<rparr>))"

definition parseWaitTriggerLine ::
  "(string \<Rightarrow> string + 'g) \<Rightarrow> string
   \<Rightarrow> ('o, 'u, 'r, 'g) ParsedQuery \<Rightarrow> ('o, 'u, 'r, 'g) ParsedQuery Outcome" where
  "parseWaitTriggerLine find_trigger line q =
     attempt (nextStringArgument line) q (\<lambda>(v, rest).
     attempt (find_trigger v) q (\<lambda>t. Done (q\<lparr>wait_trigger := Some t\<rparr>)))"

text \<open>\<^verbatim>\<open>parseWaitObjectLine\<close> assigns \<^verbatim>\<open>wait_object\<close> before it tests it.\<close>
definition parseWaitObjectLine ::
  "string \<Rightarrow> (string \<Rightarrow> 'r option)
   \<Rightarrow> ('o, 'u, 'r, 'g) ParsedQuery \<Rightarrow> ('o, 'u, 'r, 'g) ParsedQuery Outcome" where
  "parseWaitObjectLine line get q =
     (let q' = q\<lparr>wait_object := get line\<rparr>
      in if wait_object q' = None
         then Raised (''primary key '' @ [CHR 0x27] @ line @ [CHR 0x27] @
                      '' not found or not supported by this table'') q'
         else Done q')"

text \<open>
  \<^verbatim>\<open>std::chrono::round\<close> to a duration whose tick is \<open>unit\<close> ticks of the argument \<open>d\<close>:
  \<open>t0\<close> is \<^verbatim>\<open>floor\<close>, the result is the nearer of \<open>t0\<close> and \<open>t0 + 1\<close>, the even one on a tie.
\<close>
definition chrono_round :: "int \<Rightarrow> int \<Rightarrow> int" where
  "chrono_round unit d =
     (let t0 = d div unit;
          t1 = t0 + 1;
          diff0 = d - t0 * unit;
          diff1 = t1 * unit - d
      in if diff0 = diff1 then (if odd t0 then t1 else t0)
         else if diff0 < diff1 then t0
         else t1)"

text \<open>
  \<open>now\<close> is the reading of \<^verbatim>\<open>std::chrono::system_clock::now()\<close> in ticks since the epoch and
  \<open>hz\<close> the clock's ticks in a second, so \<^verbatim>\<open>from_time_t(t)\<close> is \<open>t * hz\<close> ticks. \<open>offset\<close>
  counts half hours; \<^verbatim>\<open>24h\<close> is 48 of them. The member is stored in seconds. Ticks are
  unbounded integers here: with \<open>t\<close> below \<open>2 ^ 31\<close> and a clock of nanoseconds that reads
  a time within two centuries of the epoch, the 64-bit difference of the source does not
  overflow.
\<close>
definition parseLocaltimeLine ::
  "int \<Rightarrow> int \<Rightarrow> string
   \<Rightarrow> ('o, 'u, 'r, 'g) ParsedQuery \<Rightarrow> ('o, 'u, 'r, 'g) ParsedQuery Outcome" where
  "parseLocaltimeLine hz now line q =
     attempt (nextNonNegativeIntegerArgument line) q (\<lambda>(t, rest).
       let offset = chrono_round (1800 * hz) (int t * hz - now)
       in if abs offset \<ge> 48
          then Raised ''timezone difference greater than or equal to 24 hours'' q
          else Done (q\<lparr>timezone_offset := offset * 1800\<rparr>))"

subsection \<open>The constructor\<close>

text \<open>The state of the loop over the lines: the query under construction and the two local
  stacks \<^verbatim>\<open>filters\<close> and \<^verbatim>\<open>wait_conditions\<close>.\<close>
type_synonym ('o, 'u, 'r, 'g) Builder =
  "('o, 'u, 'r, 'g) ParsedQuery \<times> 'o Filter list \<times> 'o Filter list"

text \<open>The chain of comparisons on \<open>header\<close> inside the \<^verbatim>\<open>try\<close> block; \<open>i\<close> is the index of
  the line.\<close>
definition dispatch ::
  "('o, 'u, 'r, 'g) Env \<Rightarrow> nat \<Rightarrow> string \<Rightarrow> string
   \<Rightarrow> ('o, 'u, 'r, 'g) Builder \<Rightarrow> ('o, 'u, 'r, 'g) Builder Outcome" where
  "dispatch env i header line st =
     (case st of (q, filters, wait_conditions) \<Rightarrow>
      if header = ''Filter'' then
        map_Outcome (\<lambda>(fs, q'). (q', fs, wait_conditions))
          (parseFilterLine env line filters (table_column env) q)
      else if header = ''Or'' then
        map_Outcome (\<lambda>fs. (q, fs, wait_conditions))
          (parseAndOrLine line Kind_row OringFilter_make filters)
      else if header = ''And'' then
        map_Outcome (\<lambda>fs. (q, fs, wait_conditions))
          (parseAndOrLine line Kind_row AndingFilter_make filters)
      else if header = ''Negate'' then
        map_Outcome (\<lambda>fs. (q, fs, wait_conditions))
          (parseNegateLine (complement env) line filters)
      else if header = ''StatsOr'' then
        map_Outcome (\<lambda>q'. (q', filters, wait_conditions))
          (parseStatsAndOrLine (stealFilter_what env) line OringFilter_make q)
      else if header = ''StatsAnd'' then
        map_Outcome (\<lambda>q'. (q', filters, wait_conditions))
          (parseStatsAndOrLine (stealFilter_what env) line AndingFilter_make q)
      else if header = ''StatsNegate'' then
        map_Outcome (\<lambda>q'. (q', filters, wait_conditions))
          (parseStatsNegateLine (stealFilter_what env) (complement env) line q)
      else if header = ''Stats'' then
        map_Outcome (\<lambda>q'. (q', filters, wait_conditions))
          (parseStatsLine env line (table_column env) q)
      else if header = ''Columns'' then
        map_Outcome (\<lambda>q'. (q', filters, wait_conditions))
          (parseColumnsLine line (table_column env) q)
      else if header = ''ColumnHeaders'' then
        map_Outcome (\<lambda>q'. (q', filters, wait_conditions)) (parseColumnHeadersLine line q)
      else if header = ''Limit'' then
        map_Outcome (\<lambda>q'. (q', filters, wait_conditions)) (parseLimitLine line q)
      else if header = ''Timelimit'' then
        map_Outcome (\<lambda>q'. (q', filters, wait_conditions))
          (parseTimelimitLine (steady_clock_hz env) (steady_clock_now env i) line q)
      else if header = ''AuthUser'' then
        map_Outcome (\<lambda>q'. (q', filters, wait_conditions))
          (parseAuthUserHeader line (core_find_user env) q)
      else if header = ''Separators'' then
        map_Outcome (\<lambda>q'. (q', filters, wait_conditions)) (parseSeparatorsLine line q)
      else if header = ''OutputFormat'' then
        map_Outcome (\<lambda>q'. (q', filters, wait_conditions)) (parseOutputFormatLine line q)
      else if header = ''ResponseHeader'' then
        map_Outcome (\<lambda>q'. (q', filters, wait_conditions)) (parseResponseHeaderLine line q)
      else if header = ''KeepAlive'' then
        map_Outcome (\<lambda>q'. (q', filters, wait_conditions)) (parseKeepAliveLine line q)
      else if header = ''WaitCondition'' then
        map_Outcome (\<lambda>(ws, q'). (q', filters, ws))
          (parseFilterLine env line wait_conditions (table_column env) q)
      else if header = ''WaitConditionAnd'' then
        map_Outcome (\<lambda>ws. (q, filters, ws))
          (parseAndOrLine line Kind_wait_condition AndingFilter_make wait_conditions)
      else if header = ''WaitConditionOr'' then
        map_Outcome (\<lambda>ws. (q, filters, ws))
          (parseAndOrLine line Kind_wait_condition OringFilter_make wait_conditions)
      else if header = ''WaitConditionNegate'' then
        map_Outcome (\<lambda>ws. (q, filters, ws))
          (parseNegateLine (complement env) line wait_conditions)
      else if header = ''WaitTrigger'' then
        map_Outcome (\<lambda>q'. (q', filters, wait_conditions))
          (parseWaitTriggerLine (Triggers_find env) line q)
      else if header = ''WaitObject'' then
        map_Outcome (\<lambda>q'. (q', filters, wait_conditions))
          (parseWaitObjectLine line (table_get env) q)
      else if header = ''WaitTimeout'' then
        map_Outcome (\<lambda>q'. (q', filters, wait_conditions)) (parseWaitTimeoutLine line q)
      else if header = ''Localtime'' then
        map_Outcome (\<lambda>q'. (q', filters, wait_conditions))
          (parseLocaltimeLine (system_clock_hz env) (system_clock_now env i) line q)
      else Raised ''undefined request header'' st)"

text \<open>The first statements of the loop body: the header is the line up to its first colon,
  the rest loses the colon and the whitespace after it.\<close>
definition header_of :: "string \<Rightarrow> string" where
  "header_of line_str = substr0 line_str (find_char line_str CHR '':'')"

definition arguments_of :: "string \<Rightarrow> string" where
  "arguments_of line_str =
     skip_whitespace
       (remove_prefix (min (length line_str) (length (header_of line_str) + 1)) line_str)"

text \<open>The text the \<^verbatim>\<open>catch\<close> clause hands to \<^verbatim>\<open>output.setError\<close>.\<close>
definition error_message :: "string \<Rightarrow> string \<Rightarrow> string \<Rightarrow> string" where
  "error_message header name what =
     ''while processing header '' @ [CHR 0x27] @ header @ [CHR 0x27] @
     '' for table '' @ [CHR 0x27] @ name @ [CHR 0x27] @ '': '' @ what"

text \<open>One turn of the loop over the lines, with its \<^verbatim>\<open>try\<close> and \<^verbatim>\<open>catch\<close>.\<close>
definition process_line ::
  "('o, 'u, 'r, 'g) Env \<Rightarrow> nat \<Rightarrow> ('o, 'u, 'r, 'g) Builder \<times> OutputCall list \<Rightarrow> string
   \<Rightarrow> ('o, 'u, 'r, 'g) Builder \<times> OutputCall list" where
  "process_line env i s line_str =
     (case s of (st, output) \<Rightarrow>
        (case dispatch env i (header_of line_str) (arguments_of line_str) st of
           Done st' \<Rightarrow> (st', output)
         | Raised what st' \<Rightarrow>
             (st', output @ [setError bad_request
                               (error_message (header_of line_str) (table_name env) what)])))"

fun parse_lines ::
  "('o, 'u, 'r, 'g) Env \<Rightarrow> nat \<Rightarrow> string list \<Rightarrow> ('o, 'u, 'r, 'g) Builder \<times> OutputCall list
   \<Rightarrow> ('o, 'u, 'r, 'g) Builder \<times> OutputCall list" where
  "parse_lines env i [] s = s"
| "parse_lines env i (line_str # rest) s =
     parse_lines env (Suc i) rest (process_line env i s line_str)"

text \<open>The lambda handed to \<^verbatim>\<open>table.any_column\<close>: it appends the column and returns false.\<close>
definition add_default_column ::
  "Column \<Rightarrow> ('o, 'u, 'r, 'g) ParsedQuery \<Rightarrow> bool \<times> ('o, 'u, 'r, 'g) ParsedQuery" where
  "add_default_column c q =
     (False, q\<lparr>columns := columns q @ [c],
               all_column_names := insert (Column_name c) (all_column_names q)\<rparr>)"

text \<open>The statements after the loop.\<close>
definition finish ::
  "('o, 'u, 'r, 'g) Env \<Rightarrow> ('o, 'u, 'r, 'g) Builder \<times> OutputCall list
   \<Rightarrow> ('o, 'u, 'r, 'g) ParsedQuery \<times> OutputCall list" where
  "finish env s =
     (case s of ((q, filters, wait_conditions), output) \<Rightarrow>
        let q1 = (if columns q = [] \<and> stats_columns q = []
                  then (snd (any_column (table_columns env) add_default_column q))
                         \<lparr>show_column_headers := True\<rparr>
                  else q);
            q2 = q1\<lparr>row_filter := Some (AndingFilter_make Kind_row filters),
                    wait_condition :=
                      Some (AndingFilter_make Kind_wait_condition wait_conditions)\<rparr>
        in (q2, output @ [setResponseHeader (response_header q2)]))"

text \<open>
  The object before the constructor's body runs. \<open>q0\<close> holds the default member
  initialisers of \<^verbatim>\<open>ParsedQuery.h\<close> (not among the sources); the constructor's initialiser
  list sets \<^verbatim>\<open>user\<close>, the containers start empty and the two filter roots null.
\<close>
definition initial_query ::
  "('o, 'u, 'r, 'g) ParsedQuery \<Rightarrow> ('o, 'u, 'r, 'g) ParsedQuery" where
  "initial_query q0 =
     q0\<lparr>user := NoAuthUser, columns := [], stats_columns := [], all_column_names := {},
        row_filter := None, wait_condition := None\<rparr>"

text \<open>\<^verbatim>\<open>ParsedQuery::ParsedQuery(lines, table, output)\<close>: the finished query and the output
  buffer's calls, those made before the constructor first.\<close>
definition ParsedQuery_ctor ::
  "('o, 'u, 'r, 'g) Env \<Rightarrow> ('o, 'u, 'r, 'g) ParsedQuery \<Rightarrow> string list \<Rightarrow> OutputCall list
   \<Rightarrow> ('o, 'u, 'r, 'g) ParsedQuery \<times> OutputCall list" where
  "ParsedQuery_ctor env q0 lines output =
     finish env (parse_lines env 0 lines ((initial_query q0, [], []), output))"

subsection \<open>A sample table, core and query\<close>

text \<open>
  The inputs of the concrete instances below: the service group table, a core that knows
  one contact, relational operators named by their protocol names, columns that build a
  leaf for every right-hand side (a \<^verbatim>\<open>NullColumn\<close> refuses), one trigger and one row.
\<close>
definition sample_column :: "string \<Rightarrow> string + Column" where
  "sample_column name =
     (case List.find (\<lambda>c. Column_name c = name) TableServiceGroups of
        Some c \<Rightarrow> Inr c
      | None \<Rightarrow> Inl (''table has no column '' @ name))"

definition sample_env :: "(string, string, nat, string) Env" where
  "sample_env =
     \<lparr>table_name = ''servicegroups'',
      table_columns = TableServiceGroups,
      table_column = sample_column,
      table_get = (\<lambda>key. if key = ''web'' then Some 1 else None),
      core_find_user =
        (\<lambda>name. if name = ''alice'' then Inr (CoreUser name) else Inl ''unknown user''),
      relationalOperatorForName =
        (\<lambda>name. if name = ''='' \<or> name = ''~'' \<or> name = ''>'' \<or> name = ''<''
                 then Inr name else Inl ''invalid operator''),
      complement = (\<lambda>name. CHR ''!'' # name),
      createFilter =
        (\<lambda>col kind rel_op rhs.
           if Column_class col = NullColumn then Inl ''filtering on null column''
           else Inr (ColumnFilter kind col rel_op rhs)),
      Triggers_find = (\<lambda>name. if name = ''all'' then Inr name else Inl ''invalid trigger''),
      stealFilter_what = ''not a counting column'',
      system_clock_now = (\<lambda>i. 1000),
      system_clock_hz = 1,
      steady_clock_now = (\<lambda>i. 5),
      steady_clock_hz = 1\<rparr>"

definition sample_query :: "(string, string, nat, string) ParsedQuery" where
  "sample_query =
     \<lparr>all_column_names = {}, columns = [], row_filter = None, user = NoAuthUser,
      limit = None, time_limit = None,
      separators = ([CHR 0x0A], '';'', '','', ''|''),
      show_column_headers = True, output_format = broken_csv, keepalive = False,
      response_header = ResponseHeader_off, wait_condition = None, wait_timeout = None,
      wait_trigger = None, wait_object = None, timezone_offset = 0, stats_columns = []\<rparr>"


definition sample_name_is_foo :: "string Filter" where
  "sample_name_is_foo =
     ColumnFilter Kind_row (Column ''name'' ''The name of the service group'' StringColumn)
       ''='' ''foo''"

definition sample_alias_like_bar :: "string Filter" where
  "sample_alias_like_bar =
     ColumnFilter Kind_row (Column ''alias'' ''An alias of the service group'' StringColumn)
       ''~'' ''bar''"

section \<open>Properties\<close>

subsection \<open>Evaluation and the lexical helpers\<close>

lemmas lex_defs =
  whitespace_def min_npos_def find_char_def find_first_of_def find_first_not_of_def
  substr0_def remove_prefix_def skip_whitespace_def nextStringArgument_def is_digit_def
  digits_value_def from_chars_int_def nextNonNegativeIntegerArgument_def
  checkNoArguments_def Let_def

lemmas char_defs = char_of_def bit_Suc_0_iff

lemmas sample_defs =
  sample_env_def sample_query_def sample_column_def sample_name_is_foo_def
  sample_alias_like_bar_def TableServiceGroups_def TableServiceGroups_addColumns_def
  addColumn_def

lemmas ctor_defs =
  ParsedQuery_ctor_def process_line_def header_of_def arguments_of_def dispatch_def
  finish_def initial_query_def error_message_def

lemma skip_whitespace_dropWhile:
  "skip_whitespace str = dropWhile (\<lambda>c. c \<in> set whitespace) str"
proof -
  let ?n = "length (takeWhile (\<lambda>c. c \<in> set whitespace) str)"
  have le: "?n \<le> length str" by (rule length_takeWhile_le)
  have "drop ?n str = dropWhile (\<lambda>c. c \<in> set whitespace) str"
    by (rule dropWhile_eq_drop [symmetric])
  moreover have "?n = length str \<Longrightarrow> dropWhile (\<lambda>c. c \<in> set whitespace) str = []"
    using calculation by simp
  ultimately show ?thesis using le
    by (auto simp: skip_whitespace_def remove_prefix_def min_npos_def find_first_not_of_def
        Let_def)
qed

lemma nextNonNegativeIntegerArgument_bound:
  assumes "nextNonNegativeIntegerArgument str = Inr (n, rest)"
  shows "n < 2 ^ 31"
  using assms
  by (auto simp: nextNonNegativeIntegerArgument_def from_chars_int_def Let_def
      split: sum.splits prod.splits if_splits)

lemma attempt_Inl [simp]: "attempt (Inl e) s k = Raised e s"
  by (simp add: attempt_def)

lemma attempt_Inr [simp]: "attempt (Inr a) s k = k a"
  by (simp add: attempt_def)

lemma formats_msg_value:
  "formats_msg =
     [CHR 0x27] @ ''CSV'' @ [CHR 0x27] @ '', '' @ [CHR 0x27] @ ''csv'' @ [CHR 0x27] @ '', '' @
     [CHR 0x27] @ ''json'' @ [CHR 0x27] @ '', '' @ [CHR 0x27] @ ''python'' @ [CHR 0x27] @
     '', '' @ [CHR 0x27] @ ''python3'' @ [CHR 0x27]"
  by (simp add: formats_msg_def formats_def)

subsection \<open>Aggregations\<close>

lemma MinAggregation_updates:
  "foldl (\<lambda>a v. MinAggregation_update v a) \<lparr>min_first = False, min_sum = s\<rparr> vs =
     \<lparr>min_first = False, min_sum = foldl (\<lambda>s v. if v < s then v else s) s vs\<rparr>"
  by (induction vs arbitrary: s) (simp_all add: MinAggregation_update_def)

lemma MaxAggregation_updates:
  "foldl (\<lambda>a v. MaxAggregation_update v a) \<lparr>max_first = False, max_sum = s\<rparr> vs =
     \<lparr>max_first = False, max_sum = foldl (\<lambda>s v. if s < v then v else s) s vs\<rparr>"
  by (induction vs arbitrary: s) (simp_all add: MaxAggregation_update_def)

text \<open>
  C8. A min or max aggregation starts with the accumulator 0 and the first flag set, so
  its value without any update is 0. An update while the flag is set stores the value
  whatever the accumulator holds, and clears the flag; an update after that stores the
  value only if it is smaller (min) or larger (max) than the accumulator. So after the
  updates \<open>x\<close>, then \<open>xs\<close> in order, the value is \<open>x\<close> replaced in turn by each later
  update that is smaller (larger) than the value so far.
\<close>
theorem C8_min_max_aggregation:
  fixes x :: "'d::{zero,ord}"
  shows "MinAggregation_value (MinAggregation_new :: 'd MinAggregation) = 0
    \<and> min_first (MinAggregation_new :: 'd MinAggregation)
    \<and> MinAggregation_update x (a\<lparr>min_first := True\<rparr>) = \<lparr>min_first = False, min_sum = x\<rparr>
    \<and> MinAggregation_update x (a\<lparr>min_first := False\<rparr>) =
        \<lparr>min_first = False, min_sum = (if x < min_sum a then x else min_sum a)\<rparr>
    \<and> MaxAggregation_value (MaxAggregation_new :: 'd MaxAggregation) = 0
    \<and> max_first (MaxAggregation_new :: 'd MaxAggregation)
    \<and> MaxAggregation_update x (b\<lparr>max_first := True\<rparr>) = \<lparr>max_first = False, max_sum = x\<rparr>
    \<and> MaxAggregation_update x (b\<lparr>max_first := False\<rparr>) =
        \<lparr>max_first = False, max_sum = (if max_sum b < x then x else max_sum b)\<rparr>
    \<and> MinAggregation_value
          (foldl (\<lambda>a v. MinAggregation_update v a) MinAggregation_new (x # xs)) =
        foldl (\<lambda>s v. if v < s then v else s) x xs
    \<and> MaxAggregation_value
          (foldl (\<lambda>a v. MaxAggregation_update v a) MaxAggregation_new (x # xs)) =
        foldl (\<lambda>s v. if s < v then v else s) x xs"
proof -
  have "MinAggregation_update x MinAggregation_new = \<lparr>min_first = False, min_sum = x\<rparr>"
    by (simp add: MinAggregation_new_def MinAggregation_update_def)
  then have "MinAggregation_value
          (foldl (\<lambda>a v. MinAggregation_update v a) MinAggregation_new (x # xs)) =
        foldl (\<lambda>s v. if v < s then v else s) x xs"
    by (simp add: MinAggregation_updates MinAggregation_value_def)
  moreover
  have "MaxAggregation_update x MaxAggregation_new = \<lparr>max_first = False, max_sum = x\<rparr>"
    by (simp add: MaxAggregation_new_def MaxAggregation_update_def)
  then have "MaxAggregation_value
          (foldl (\<lambda>a v. MaxAggregation_update v a) MaxAggregation_new (x # xs)) =
        foldl (\<lambda>s v. if s < v then v else s) x xs"
    by (simp add: MaxAggregation_updates MaxAggregation_value_def)
  ultimately show ?thesis
    by (simp add: MinAggregation_new_def MinAggregation_update_def MinAggregation_value_def
        MaxAggregation_new_def MaxAggregation_update_def MaxAggregation_value_def)
qed

theorem C8_min_max_aggregation_witness:
  "MinAggregation_value
     (MinAggregation_update (7::int) (MinAggregation_update 3 (MinAggregation_update 5
        MinAggregation_new))) = 3
   \<and> MaxAggregation_value
     (MaxAggregation_update (- 7::int) (MaxAggregation_update (- 3) (MaxAggregation_update (- 5)
        MaxAggregation_new))) = - 3
   \<and> MinAggregation_value (MinAggregation_new :: int MinAggregation) = 0
   \<and> MinAggregation_value (MinAggregation_update (5::int) MinAggregation_new) = 5
   \<and> MaxAggregation_value (MaxAggregation_update (- 5::int) MaxAggregation_new) = - 5"
  using C8_min_max_aggregation [of "5::int" MinAggregation_new MaxAggregation_new "[3, 7]"]
    C8_min_max_aggregation [of "- 5::int" MinAggregation_new MaxAggregation_new "[- 3, - 7]"]
  by (simp add: MinAggregation_new_def MinAggregation_update_def MinAggregation_value_def
      MaxAggregation_new_def MaxAggregation_update_def MaxAggregation_value_def)

subsection \<open>Output formats\<close>

text \<open>
  C10, as amended. The first argument of an \<^verbatim>\<open>OutputFormat:\<close> line is compared exactly, case
  included: \<^verbatim>\<open>CSV\<close> selects csv, \<^verbatim>\<open>csv\<close> selects broken_csv, \<^verbatim>\<open>json\<close> selects json,
  \<^verbatim>\<open>python\<close> and \<^verbatim>\<open>python3\<close> both select python3, and every other argument fails with the
  error that lists the five names. A line without an argument fails too.
\<close>
theorem C10_output_format:
  "parseOutputFormatLine line q =
     (case nextStringArgument line of
        Inl e \<Rightarrow> Raised e q
      | Inr (v, rest) \<Rightarrow>
          if v = ''CSV'' then Done (q\<lparr>output_format := csv\<rparr>)
          else if v = ''csv'' then Done (q\<lparr>output_format := broken_csv\<rparr>)
          else if v = ''json'' then Done (q\<lparr>output_format := json\<rparr>)
          else if v = ''python'' \<or> v = ''python3'' then Done (q\<lparr>output_format := python3\<rparr>)
          else Raised (''missing/invalid output format, use one of '' @ formats_msg) q)"
  by (auto simp: parseOutputFormatLine_def formats_def split: sum.splits)

theorem C10_output_format_witness:
  "parseOutputFormatLine ''CSV'' sample_query = Done (sample_query\<lparr>output_format := csv\<rparr>)
   \<and> parseOutputFormatLine ''csv'' sample_query =
       Done (sample_query\<lparr>output_format := broken_csv\<rparr>)
   \<and> parseOutputFormatLine ''python extra'' sample_query =
       Done (sample_query\<lparr>output_format := python3\<rparr>)
   \<and> parseOutputFormatLine ''python3'' sample_query =
       Done (sample_query\<lparr>output_format := python3\<rparr>)
   \<and> parseOutputFormatLine ''JSON'' sample_query =
       Raised (''missing/invalid output format, use one of '' @ formats_msg) sample_query
   \<and> parseOutputFormatLine [] sample_query = Raised ''missing argument'' sample_query"
  using C10_output_format [of "''CSV''" sample_query]
    C10_output_format [of "''csv''" sample_query]
    C10_output_format [of "''python extra''" sample_query]
    C10_output_format [of "''python3''" sample_query]
    C10_output_format [of "''JSON''" sample_query]
    C10_output_format [of "[]" sample_query]
  by (simp add: lex_defs)

text \<open>The argument \<^verbatim>\<open>json\<close> is none of \<^verbatim>\<open>CSV\<close>, \<^verbatim>\<open>csv\<close>, \<^verbatim>\<open>python\<close>, \<^verbatim>\<open>python3\<close>, and the
  line does not fail.\<close>
theorem C10_json_counterexample:
  "''json'' \<notin> {''CSV'', ''csv'', ''python'', ''python3''}
   \<and> parseOutputFormatLine ''json'' sample_query = Done (sample_query\<lparr>output_format := json\<rparr>)"
  by (simp add: parseOutputFormatLine_def formats_def lex_defs)

subsection \<open>Combining filters on a stack\<close>

declare pop_subfilters.simps [simp del] steal_subfilters.simps [simp del]

lemma pop_subfilters_window:
  "length tops = number - i \<Longrightarrow>
   pop_subfilters number i subfilters (pre @ tops) = Done (subfilters @ rev tops, pre)"
proof (induction tops arbitrary: i subfilters rule: rev_induct)
  case Nil
  then show ?case by (simp add: pop_subfilters.simps)
next
  case (snoc x xs)
  then have lt: "i < number" and len: "length xs = number - Suc i" by auto
  have "pop_subfilters number i subfilters (pre @ xs @ [x]) =
        pop_subfilters number (Suc i) (subfilters @ [x]) (pre @ xs)"
    using lt by (subst pop_subfilters.simps) (simp add: butlast_append)
  also have "\<dots> = Done ((subfilters @ [x]) @ rev xs, pre)"
    by (rule snoc.IH [OF len])
  finally show ?case by simp
qed

lemma pop_subfilters_underflow:
  "length filters < number - i \<Longrightarrow>
   pop_subfilters number i subfilters filters =
     Raised (stack_underflow number (i + length filters)) (subfilters @ rev filters, [])"
proof (induction filters arbitrary: i subfilters rule: rev_induct)
  case Nil
  then show ?case by (simp add: pop_subfilters.simps)
next
  case (snoc x xs)
  then have lt: "i < number" and len: "length xs < number - Suc i" by auto
  have "pop_subfilters number i subfilters (xs @ [x]) =
        pop_subfilters number (Suc i) (subfilters @ [x]) xs"
    using lt by (subst pop_subfilters.simps) simp
  also have "\<dots> = Raised (stack_underflow number (Suc i + length xs))
                       ((subfilters @ [x]) @ rev xs, [])"
    by (rule snoc.IH [OF len])
  finally show ?case by simp
qed

lemma steal_subfilters_window:
  "length fs = number - i \<Longrightarrow>
   steal_subfilters what number i subfilters (pre @ map StatsColumnCount fs) =
     Done (subfilters @ rev fs, pre)"
proof (induction fs arbitrary: i subfilters rule: rev_induct)
  case Nil
  then show ?case by (simp add: steal_subfilters.simps)
next
  case (snoc x xs)
  then have lt: "i < number" and len: "length xs = number - Suc i" by auto
  have "steal_subfilters what number i subfilters (pre @ map StatsColumnCount (xs @ [x])) =
        steal_subfilters what number (Suc i) (subfilters @ [x]) (pre @ map StatsColumnCount xs)"
    using lt by (subst steal_subfilters.simps) (simp add: butlast_append)
  also have "\<dots> = Done ((subfilters @ [x]) @ rev xs, pre)"
    by (rule snoc.IH [OF len])
  finally show ?case by simp
qed

lemma steal_subfilters_underflow:
  "length fs < number - i \<Longrightarrow>
   steal_subfilters what number i subfilters (map StatsColumnCount fs) =
     Raised (stack_underflow number (i + length fs)) (subfilters @ rev fs, [])"
proof (induction fs arbitrary: i subfilters rule: rev_induct)
  case Nil
  then show ?case by (simp add: steal_subfilters.simps)
next
  case (snoc x xs)
  then have lt: "i < number" and len: "length xs < number - Suc i" by auto
  have "steal_subfilters what number i subfilters (map StatsColumnCount (xs @ [x])) =
        steal_subfilters what number (Suc i) (subfilters @ [x]) (map StatsColumnCount xs)"
    using lt by (subst steal_subfilters.simps) simp
  also have "\<dots> = Raised (stack_underflow number (Suc i + length xs))
                       ((subfilters @ [x]) @ rev xs, [])"
    by (rule snoc.IH [OF len])
  finally show ?case by simp
qed

text \<open>An aggregating column inside the window stops \<^verbatim>\<open>StatsAnd\<close> and \<^verbatim>\<open>StatsOr\<close> with the
  error of \<^verbatim>\<open>stealFilter\<close>; the columns above it are gone, it stays on the stack.\<close>
lemma steal_subfilters_op:
  "length fs < number - i \<Longrightarrow>
   steal_subfilters what number i subfilters
     (pre @ StatsColumnOp factory col # map StatsColumnCount fs) =
     Raised what (subfilters @ rev fs, pre @ [StatsColumnOp factory col])"
proof (induction fs arbitrary: i subfilters rule: rev_induct)
  case Nil
  then show ?case by (simp add: steal_subfilters.simps)
next
  case (snoc x xs)
  then have lt: "i < number" and len: "length xs < number - Suc i" by auto
  have "steal_subfilters what number i subfilters
          (pre @ StatsColumnOp factory col # map StatsColumnCount (xs @ [x])) =
        steal_subfilters what number (Suc i) (subfilters @ [x])
          (pre @ StatsColumnOp factory col # map StatsColumnCount xs)"
    using lt
    by (subst steal_subfilters.simps)
       (simp add: butlast_append flip: append_Cons append_assoc)
  also have "\<dots> = Raised what ((subfilters @ [x]) @ rev xs, pre @ [StatsColumnOp factory col])"
    by (rule snoc.IH [OF len])
  finally show ?case by simp
qed

lemma parseAndOrLine_window:
  assumes "nextNonNegativeIntegerArgument line = Inr (n, rest)" and "length tops = n"
  shows "parseAndOrLine line kind connective (pre @ tops) = Done (pre @ [connective kind tops])"
  using assms pop_subfilters_window [of tops n 0 "[]" pre]
  by (simp add: parseAndOrLine_def)

lemma parseAndOrLine_underflow:
  assumes "nextNonNegativeIntegerArgument line = Inr (n, rest)" and "length filters < n"
  shows "parseAndOrLine line kind connective filters =
           Raised (stack_underflow n (length filters)) []"
  using assms pop_subfilters_underflow [of filters n 0 "[]"]
  by (simp add: parseAndOrLine_def)

lemma parseStatsAndOrLine_window:
  assumes "nextNonNegativeIntegerArgument line = Inr (n, rest)" and "length fs = n"
    and "stats_columns q = pre @ map StatsColumnCount fs"
  shows "parseStatsAndOrLine what line connective q =
           Done (q\<lparr>stats_columns := pre @ [StatsColumnCount (connective Kind_stats fs)]\<rparr>)"
  using assms steal_subfilters_window [of fs n 0 what "[]" pre]
  by (simp add: parseStatsAndOrLine_def)

lemma parseStatsAndOrLine_underflow:
  assumes "nextNonNegativeIntegerArgument line = Inr (n, rest)" and "length fs < n"
    and "stats_columns q = map StatsColumnCount fs"
  shows "parseStatsAndOrLine what line connective q =
           Raised (stack_underflow n (length fs)) (q\<lparr>stats_columns := []\<rparr>)"
  using assms steal_subfilters_underflow [of fs n 0 what "[]"]
  by (simp add: parseStatsAndOrLine_def)

lemma parseStatsAndOrLine_op:
  assumes "nextNonNegativeIntegerArgument line = Inr (n, rest)" and "length fs < n"
    and "stats_columns q = pre @ StatsColumnOp factory col # map StatsColumnCount fs"
  shows "parseStatsAndOrLine what line connective q =
           Raised what (q\<lparr>stats_columns := pre @ [StatsColumnOp factory col]\<rparr>)"
  using assms steal_subfilters_op [of fs n 0 what "[]" pre factory col]
  by (simp add: parseStatsAndOrLine_def)

lemma digits_value_snoc:
  "digits_value (ds @ [c]) = 10 * digits_value ds + ((of_char c :: nat) - 48)"
  by (simp add: digits_value_def)

lemma to_string_small: "n < 10 \<Longrightarrow> to_string n = [char_of (48 + n)]"
  by (subst to_string.simps) (simp only: if_True)

lemma to_string_big:
  "\<not> n < 10 \<Longrightarrow> to_string n = to_string (n div 10) @ [char_of (48 + n mod 10)]"
  by (subst to_string.simps) (simp only: if_False)

lemma of_char_digit: "d < 10 \<Longrightarrow> (of_char (char_of (48 + d :: nat)) :: nat) = 48 + d"
  by simp

text \<open>\<^const>\<open>to_string\<close> writes the decimal numeral: digits only, and reading them gives the
  number back.\<close>
lemma to_string_decimal:
  "digits_value (to_string k) = k \<and> list_all is_digit (to_string k)"
proof (induction k rule: to_string.induct)
  case (1 n)
  show ?case
  proof (cases "n < 10")
    case True
    then show ?thesis
      by (simp only: to_string_small) (simp add: digits_value_def is_digit_def)
  next
    case False
    have d: "(of_char (char_of (48 + n mod 10)) :: nat) = 48 + n mod 10"
      by (rule of_char_digit) simp
    from "1.IH" [OF False] show ?thesis
      by (simp only: to_string_big [OF False] digits_value_snoc d list_all_append)
        (simp add: is_digit_def d)
  qed
qed

text \<open>
  C1, as amended. Let the argument of the line be the number \<open>n\<close>. On a stack whose top
  \<open>n\<close> filters are \<open>tops\<close> (in push order) above the filters \<open>pre\<close>, \<^verbatim>\<open>parseAndOrLine\<close>
  leaves \<open>pre\<close> with one filter pushed, the connective applied to \<open>tops\<close> in push order. On
  a stack of fewer than \<open>n\<close> filters it throws the underflow error, whose text holds the
  decimal numerals of \<open>n\<close> and of the number of filters that were on the stack. The headers
  \<^verbatim>\<open>And\<close>, \<^verbatim>\<open>Or\<close> run it on the row stack, \<^verbatim>\<open>WaitConditionAnd\<close>, \<^verbatim>\<open>WaitConditionOr\<close> on the
  wait-condition stack. The headers \<^verbatim>\<open>StatsAnd\<close>, \<^verbatim>\<open>StatsOr\<close> run \<^verbatim>\<open>parseStatsAndOrLine\<close>,
  which does the same on the stats columns at the kind stats, with the filters that the
  columns hand back, as long as the columns it reaches are counts. If it reaches an
  aggregating column before it has \<open>n\<close> filters, the line fails with the error of
  \<^verbatim>\<open>stealFilter\<close>, neither combining nor reporting an underflow; the counts above that
  column are popped and it stays.
\<close>
theorem C1_and_or_stack:
  assumes "nextNonNegativeIntegerArgument line = Inr (n, rest)"
  shows "(length tops = n \<longrightarrow>
            parseAndOrLine line kind connective (pre @ tops) = Done (pre @ [connective kind tops]))
    \<and> (length filters < n \<longrightarrow>
          parseAndOrLine line kind connective filters =
            Raised (stack_underflow n (length filters)) [])
    \<and> (length fs = n \<longrightarrow> stats_columns q = cols @ map StatsColumnCount fs \<longrightarrow>
          parseStatsAndOrLine what line connective q =
            Done (q\<lparr>stats_columns := cols @ [StatsColumnCount (connective Kind_stats fs)]\<rparr>))
    \<and> (length fs < n \<longrightarrow> stats_columns q = map StatsColumnCount fs \<longrightarrow>
          parseStatsAndOrLine what line connective q =
            Raised (stack_underflow n (length fs)) (q\<lparr>stats_columns := []\<rparr>))
    \<and> (length fs < n \<longrightarrow>
          stats_columns q = cols @ StatsColumnOp factory col # map StatsColumnCount fs \<longrightarrow>
          parseStatsAndOrLine what line connective q =
            Raised what (q\<lparr>stats_columns := cols @ [StatsColumnOp factory col]\<rparr>))
    \<and> stack_underflow expected actual =
          ''cannot combine filters: expecting '' @ to_string expected @ '' '' @
          (if expected = 1 then ''filter'' else ''filters'') @
          '', but only '' @ to_string actual @ '' '' @
          (if actual = 1 then ''is'' else ''are'') @ '' on stack''
    \<and> digits_value (to_string k) = k
    \<and> list_all is_digit (to_string k)
    \<and> dispatch env i ''And'' line (q, filters, wait_conditions) =
          map_Outcome (\<lambda>fs'. (q, fs', wait_conditions))
            (parseAndOrLine line Kind_row AndingFilter_make filters)
    \<and> dispatch env i ''Or'' line (q, filters, wait_conditions) =
          map_Outcome (\<lambda>fs'. (q, fs', wait_conditions))
            (parseAndOrLine line Kind_row OringFilter_make filters)
    \<and> dispatch env i ''WaitConditionAnd'' line (q, filters, wait_conditions) =
          map_Outcome (\<lambda>ws'. (q, filters, ws'))
            (parseAndOrLine line Kind_wait_condition AndingFilter_make wait_conditions)
    \<and> dispatch env i ''WaitConditionOr'' line (q, filters, wait_conditions) =
          map_Outcome (\<lambda>ws'. (q, filters, ws'))
            (parseAndOrLine line Kind_wait_condition OringFilter_make wait_conditions)
    \<and> dispatch env i ''StatsAnd'' line (q, filters, wait_conditions) =
          map_Outcome (\<lambda>q'. (q', filters, wait_conditions))
            (parseStatsAndOrLine (stealFilter_what env) line AndingFilter_make q)
    \<and> dispatch env i ''StatsOr'' line (q, filters, wait_conditions) =
          map_Outcome (\<lambda>q'. (q', filters, wait_conditions))
            (parseStatsAndOrLine (stealFilter_what env) line OringFilter_make q)"
proof -
  have disp: "dispatch env i ''And'' line (q, filters, wait_conditions) =
          map_Outcome (\<lambda>fs'. (q, fs', wait_conditions))
            (parseAndOrLine line Kind_row AndingFilter_make filters)"
    "dispatch env i ''Or'' line (q, filters, wait_conditions) =
          map_Outcome (\<lambda>fs'. (q, fs', wait_conditions))
            (parseAndOrLine line Kind_row OringFilter_make filters)"
    "dispatch env i ''WaitConditionAnd'' line (q, filters, wait_conditions) =
          map_Outcome (\<lambda>ws'. (q, filters, ws'))
            (parseAndOrLine line Kind_wait_condition AndingFilter_make wait_conditions)"
    "dispatch env i ''WaitConditionOr'' line (q, filters, wait_conditions) =
          map_Outcome (\<lambda>ws'. (q, filters, ws'))
            (parseAndOrLine line Kind_wait_condition OringFilter_make wait_conditions)"
    "dispatch env i ''StatsAnd'' line (q, filters, wait_conditions) =
          map_Outcome (\<lambda>q'. (q', filters, wait_conditions))
            (parseStatsAndOrLine (stealFilter_what env) line AndingFilter_make q)"
    "dispatch env i ''StatsOr'' line (q, filters, wait_conditions) =
          map_Outcome (\<lambda>q'. (q', filters, wait_conditions))
            (parseStatsAndOrLine (stealFilter_what env) line OringFilter_make q)"
    by (simp_all add: dispatch_def)
  have msg: "stack_underflow expected actual =
          ''cannot combine filters: expecting '' @ to_string expected @ '' '' @
          (if expected = 1 then ''filter'' else ''filters'') @
          '', but only '' @ to_string actual @ '' '' @
          (if actual = 1 then ''is'' else ''are'') @ '' on stack''"
    by (simp only: stack_underflow_def)
  have "parseAndOrLine line kind connective (pre @ tops) = Done (pre @ [connective kind tops])"
    if "length tops = n"
    using assms that by (rule parseAndOrLine_window)
  moreover have "parseAndOrLine line kind connective filters =
      Raised (stack_underflow n (length filters)) []"
    if "length filters < n"
    using assms that by (rule parseAndOrLine_underflow)
  moreover have "parseStatsAndOrLine what line connective q =
      Done (q\<lparr>stats_columns := cols @ [StatsColumnCount (connective Kind_stats fs)]\<rparr>)"
    if "length fs = n" and "stats_columns q = cols @ map StatsColumnCount fs"
    using assms that by (rule parseStatsAndOrLine_window)
  moreover have "parseStatsAndOrLine what line connective q =
      Raised (stack_underflow n (length fs)) (q\<lparr>stats_columns := []\<rparr>)"
    if "length fs < n" and "stats_columns q = map StatsColumnCount fs"
    using assms that by (rule parseStatsAndOrLine_underflow)
  moreover have "parseStatsAndOrLine what line connective q =
      Raised what (q\<lparr>stats_columns := cols @ [StatsColumnOp factory col]\<rparr>)"
    if "length fs < n"
      and "stats_columns q = cols @ StatsColumnOp factory col # map StatsColumnCount fs"
    using assms that by (rule parseStatsAndOrLine_op)
  ultimately show ?thesis
    using disp msg to_string_decimal [of k] by (intro conjI impI) blast+
qed

theorem C1_and_or_stack_witness:
  "nextNonNegativeIntegerArgument ''2'' = Inr (2, [])
   \<and> parseAndOrLine ''2'' Kind_row AndingFilter_make
         [sample_alias_like_bar, sample_name_is_foo, sample_alias_like_bar] =
       Done [sample_alias_like_bar,
             AndingFilter Kind_row [sample_name_is_foo, sample_alias_like_bar]]
   \<and> parseAndOrLine ''2'' Kind_row OringFilter_make [sample_name_is_foo] =
       Raised ''cannot combine filters: expecting 2 filters, but only 1 is on stack'' []
   \<and> nextNonNegativeIntegerArgument ''1'' = Inr (1, [])
   \<and> parseAndOrLine ''1'' Kind_wait_condition AndingFilter_make [] =
       Raised ''cannot combine filters: expecting 1 filter, but only 0 are on stack'' []
   \<and> nextNonNegativeIntegerArgument ''12'' = Inr (12, [])
   \<and> parseAndOrLine ''12'' Kind_row OringFilter_make
         [sample_name_is_foo, sample_alias_like_bar, sample_name_is_foo] =
       Raised ''cannot combine filters: expecting 12 filters, but only 3 are on stack'' []
   \<and> parseStatsAndOrLine ''not a counting column'' ''2'' OringFilter_make
         (sample_query\<lparr>stats_columns :=
            [StatsColumnCount sample_name_is_foo, StatsColumnCount sample_alias_like_bar]\<rparr>) =
       Done (sample_query\<lparr>stats_columns :=
            [StatsColumnCount
               (OringFilter Kind_stats [sample_name_is_foo, sample_alias_like_bar])]\<rparr>)
   \<and> parseStatsAndOrLine ''not a counting column'' ''2'' OringFilter_make
         (sample_query\<lparr>stats_columns := [StatsColumnCount sample_name_is_foo]\<rparr>) =
       Raised ''cannot combine filters: expecting 2 filters, but only 1 is on stack''
         (sample_query\<lparr>stats_columns := []\<rparr>)
   \<and> parseStatsAndOrLine ''not a counting column'' ''2'' OringFilter_make
         (sample_query\<lparr>stats_columns :=
            [StatsColumnCount sample_alias_like_bar,
             StatsColumnOp SumAggregation (Column ''num_services'' [] (IntLambdaColumn num)),
             StatsColumnCount sample_name_is_foo]\<rparr>) =
       Raised ''not a counting column''
         (sample_query\<lparr>stats_columns :=
            [StatsColumnCount sample_alias_like_bar,
             StatsColumnOp SumAggregation
               (Column ''num_services'' [] (IntLambdaColumn num))]\<rparr>)"
proof -
  have h: "nextNonNegativeIntegerArgument ''2'' = Inr (2, [])"
    and h1: "nextNonNegativeIntegerArgument ''1'' = Inr (1, [])"
    and h12: "nextNonNegativeIntegerArgument ''12'' = Inr (12, [])"
    by (simp_all add: lex_defs)
  have t21: "stack_underflow 2 1 =
      ''cannot combine filters: expecting 2 filters, but only 1 is on stack''"
    and t10: "stack_underflow 1 0 =
      ''cannot combine filters: expecting 1 filter, but only 0 are on stack''"
    and t123: "stack_underflow 12 3 =
      ''cannot combine filters: expecting 12 filters, but only 3 are on stack''"
    by (simp_all add: stack_underflow_def to_string.simps char_defs)
  have w1: "parseAndOrLine ''2'' Kind_row AndingFilter_make
         ([sample_alias_like_bar] @ [sample_name_is_foo, sample_alias_like_bar]) =
       Done ([sample_alias_like_bar] @
             [AndingFilter_make Kind_row [sample_name_is_foo, sample_alias_like_bar]])"
    using C1_and_or_stack [OF h, where tops = "[sample_name_is_foo, sample_alias_like_bar]"
        and kind = Kind_row and connective = AndingFilter_make
        and pre = "[sample_alias_like_bar]", THEN conjunct1]
    by simp
  have w2: "parseAndOrLine ''2'' Kind_row OringFilter_make [sample_name_is_foo] =
       Raised (stack_underflow 2 1) []"
    using C1_and_or_stack [OF h, where filters = "[sample_name_is_foo]" and kind = Kind_row
        and connective = OringFilter_make, THEN conjunct2, THEN conjunct1]
    by simp
  have w3: "parseAndOrLine ''1'' Kind_wait_condition AndingFilter_make [] =
       Raised (stack_underflow 1 0) []"
    using C1_and_or_stack [OF h1, where filters = "[]" and kind = Kind_wait_condition
        and connective = AndingFilter_make, THEN conjunct2, THEN conjunct1]
    by simp
  have w4: "parseAndOrLine ''12'' Kind_row OringFilter_make
         [sample_name_is_foo, sample_alias_like_bar, sample_name_is_foo] =
       Raised (stack_underflow 12 3) []"
    using C1_and_or_stack [OF h12,
        where filters = "[sample_name_is_foo, sample_alias_like_bar, sample_name_is_foo]"
        and kind = Kind_row and connective = OringFilter_make,
        THEN conjunct2, THEN conjunct1]
    by (simp add: numeral_3_eq_3)
  have w5: "parseStatsAndOrLine ''not a counting column'' ''2'' OringFilter_make
         (sample_query\<lparr>stats_columns :=
            [StatsColumnCount sample_name_is_foo, StatsColumnCount sample_alias_like_bar]\<rparr>) =
       Done (sample_query\<lparr>stats_columns :=
            [StatsColumnCount
               (OringFilter_make Kind_stats [sample_name_is_foo, sample_alias_like_bar])]\<rparr>)"
    using C1_and_or_stack [OF h, where fs = "[sample_name_is_foo, sample_alias_like_bar]"
        and cols = "[]" and connective = OringFilter_make
        and what = "''not a counting column''"
        and q = "sample_query\<lparr>stats_columns :=
            [StatsColumnCount sample_name_is_foo, StatsColumnCount sample_alias_like_bar]\<rparr>",
        THEN conjunct2, THEN conjunct2, THEN conjunct1]
    by simp
  have w6: "parseStatsAndOrLine ''not a counting column'' ''2'' OringFilter_make
         (sample_query\<lparr>stats_columns := [StatsColumnCount sample_name_is_foo]\<rparr>) =
       Raised (stack_underflow 2 1) (sample_query\<lparr>stats_columns := []\<rparr>)"
    using C1_and_or_stack [OF h, where fs = "[sample_name_is_foo]"
        and connective = OringFilter_make and what = "''not a counting column''"
        and q = "sample_query\<lparr>stats_columns := [StatsColumnCount sample_name_is_foo]\<rparr>",
        THEN conjunct2, THEN conjunct2, THEN conjunct2, THEN conjunct1]
    by simp
  have w7: "parseStatsAndOrLine ''not a counting column'' ''2'' OringFilter_make
         (sample_query\<lparr>stats_columns :=
            [StatsColumnCount sample_alias_like_bar,
             StatsColumnOp SumAggregation (Column ''num_services'' [] (IntLambdaColumn num)),
             StatsColumnCount sample_name_is_foo]\<rparr>) =
       Raised ''not a counting column''
         (sample_query\<lparr>stats_columns :=
            [StatsColumnCount sample_alias_like_bar,
             StatsColumnOp SumAggregation
               (Column ''num_services'' [] (IntLambdaColumn num))]\<rparr>)"
    using C1_and_or_stack [OF h, where fs = "[sample_name_is_foo]"
        and cols = "[StatsColumnCount sample_alias_like_bar]"
        and factory = SumAggregation
        and col = "Column ''num_services'' [] (IntLambdaColumn num)"
        and connective = OringFilter_make and what = "''not a counting column''"
        and q = "sample_query\<lparr>stats_columns :=
            [StatsColumnCount sample_alias_like_bar,
             StatsColumnOp SumAggregation (Column ''num_services'' [] (IntLambdaColumn num)),
             StatsColumnCount sample_name_is_foo]\<rparr>",
        THEN conjunct2, THEN conjunct2, THEN conjunct2, THEN conjunct2, THEN conjunct1]
    by simp
  show ?thesis
    using h h1 h12 w1 w2 w3 w4 w5 w6 w7
    by (simp only: t21 t10 t123 append_Cons append_Nil)
       (simp add: AndingFilter_make_def OringFilter_make_def)
qed

text \<open>
  The request \<^verbatim>\<open>Stats: sum num_services\<close>, \<^verbatim>\<open>StatsAnd: 1\<close>: the stats stack holds one
  column when the second line asks for one, and the line neither combines nor reports an
  underflow: it fails with the error of \<^verbatim>\<open>stealFilter\<close> and the aggregating column stays.
  With \<^verbatim>\<open>StatsAnd: 2\<close> the stack is one column short, and the error is again that of
  \<^verbatim>\<open>stealFilter\<close>, not an underflow error that names 2 and what is on the stack.
\<close>
theorem C1_stats_op_counterexample:
  "stats_columns (fst (ParsedQuery_ctor sample_env sample_query
       [''Stats: sum num_services'', ''StatsAnd: 1''] [])) =
     [StatsColumnOp SumAggregation
        (Column ''num_services'' ''The total number of services in the group''
           (IntLambdaColumn num))]
   \<and> snd (ParsedQuery_ctor sample_env sample_query
       [''Stats: sum num_services'', ''StatsAnd: 1''] []) =
     [setError bad_request
        (error_message ''StatsAnd'' ''servicegroups'' ''not a counting column''),
      setResponseHeader ResponseHeader_off]
   \<and> snd (ParsedQuery_ctor sample_env sample_query
       [''Stats: sum num_services'', ''StatsAnd: 2''] []) =
     [setError bad_request
        (error_message ''StatsAnd'' ''servicegroups'' ''not a counting column''),
      setResponseHeader ResponseHeader_off]
   \<and> ''not a counting column'' \<noteq> stack_underflow 2 1
   \<and> ''not a counting column'' \<noteq> stack_underflow 2 0"
  by (simp add: ctor_defs parseStatsLine_def push_stats_column_def stats_ops_def
      parseStatsAndOrLine_def steal_subfilters.simps stack_underflow_def to_string.simps
      lex_defs sample_defs)

subsection \<open>Column headers\<close>

declare columns_loop.simps [simp del]

lemma state_of_simps [simp]:
  "state_of (Done s) = s" "state_of (Raised e s) = s"
  by (simp_all add: state_of_def)

lemma state_of_map_Outcome [simp]: "state_of (map_Outcome f r) = f (state_of r)"
  by (cases r) simp_all

lemma state_of_attempt:
  "state_of (attempt r s k) = (case r of Inl e \<Rightarrow> s | Inr a \<Rightarrow> state_of (k a))"
  by (simp add: attempt_def split: sum.splits)

text \<open>The loop of \<^verbatim>\<open>parseColumnsLine\<close> only appends columns and adds names.\<close>
lemma columns_loop_frame:
  "\<exists>cs names. columns_loop make_column line q =
     q\<lparr>columns := columns q @ cs, all_column_names := all_column_names q \<union> names\<rparr>"
proof (induction make_column line q rule: columns_loop.induct)
  case (1 make_column line q)
  show ?case
  proof (cases "line = []")
    case True
    have "columns_loop make_column line q =
          q\<lparr>columns := columns q @ [], all_column_names := all_column_names q \<union> {}\<rparr>"
      using True by (simp add: columns_loop.simps)
    then show ?thesis by blast
  next
    case False
    from "1.IH" [OF False] obtain cs names q1 line1 where
      q1: "q1 = q\<lparr>columns := columns q @
                   [case make_column (substr0 line (find_first_of line whitespace)) of
                      Inr col \<Rightarrow> col
                    | Inl e \<Rightarrow> Column (substr0 line (find_first_of line whitespace))
                               ''non-existing column'' NullColumn],
                 all_column_names :=
                   insert (substr0 line (find_first_of line whitespace)) (all_column_names q)\<rparr>"
      and line1: "line1 = remove_prefix
                (min_npos (length line)
                   (find_first_not_of line whitespace
                      (length (substr0 line (find_first_of line whitespace))))) line"
      and step: "columns_loop make_column line1 q1 =
         q1\<lparr>columns := columns q1 @ cs, all_column_names := all_column_names q1 \<union> names\<rparr>"
      by blast
    have "columns_loop make_column line q = columns_loop make_column line1 q1"
      using False by (subst columns_loop.simps) (simp add: q1 line1)
    also have "\<dots> =
      q1\<lparr>columns := columns q1 @ cs, all_column_names := all_column_names q1 \<union> names\<rparr>"
      by (rule step)
    also have "\<dots> =
      q\<lparr>columns := columns q @
            ((case make_column (substr0 line (find_first_of line whitespace)) of
                Inr col \<Rightarrow> col
              | Inl e \<Rightarrow> Column (substr0 line (find_first_of line whitespace))
                         ''non-existing column'' NullColumn) # cs),
        all_column_names := all_column_names q \<union>
            insert (substr0 line (find_first_of line whitespace)) names\<rparr>"
      by (simp add: q1)
    finally show ?thesis by blast
  qed
qed

lemma parseStatsAndOrLine_frame:
  "\<exists>cols. state_of (parseStatsAndOrLine what line connective q) = q\<lparr>stats_columns := cols\<rparr>"
proof (cases "nextNonNegativeIntegerArgument line")
  case (Inl e)
  have "state_of (parseStatsAndOrLine what line connective q) =
        q\<lparr>stats_columns := stats_columns q\<rparr>"
    using Inl by (simp add: parseStatsAndOrLine_def)
  then show ?thesis by blast
next
  case (Inr a)
  then show ?thesis
    by (cases a) (auto simp: parseStatsAndOrLine_def split: Outcome.splits)
qed

lemma headers_parseFilterLine:
  "show_column_headers (snd (state_of (parseFilterLine env line filters make_column q)))
   \<Longrightarrow> show_column_headers q"
  by (auto simp: parseFilterLine_def state_of_attempt Let_def split: sum.splits prod.splits)

lemma headers_parseStatsAndOrLine:
  "show_column_headers (state_of (parseStatsAndOrLine what line connective q))
   \<Longrightarrow> show_column_headers q"
  using parseStatsAndOrLine_frame [of what line connective q] by auto

lemma headers_parseStatsNegateLine:
  "show_column_headers (state_of (parseStatsNegateLine what compl line q))
   \<Longrightarrow> show_column_headers q"
  by (auto simp: parseStatsNegateLine_def state_of_attempt split: sum.splits if_splits)

lemma headers_parseStatsLine:
  "show_column_headers (state_of (parseStatsLine env line make_column q))
   \<Longrightarrow> show_column_headers q"
  by (auto simp: parseStatsLine_def state_of_attempt push_stats_column_def Let_def
      split: sum.splits prod.splits option.splits)

lemma headers_parseColumnsLine:
  "show_column_headers (state_of (parseColumnsLine line make_column q))
   \<Longrightarrow> show_column_headers q"
  by (simp add: parseColumnsLine_def)

lemma headers_parseColumnHeadersLine:
  "show_column_headers (state_of (parseColumnHeadersLine line q))
   \<Longrightarrow> show_column_headers q \<or> (\<exists>rest. nextStringArgument line = Inr (''on'', rest))"
  by (auto simp: parseColumnHeadersLine_def state_of_attempt split: sum.splits if_splits)

lemma headers_parseLimitLine:
  "show_column_headers (state_of (parseLimitLine line q)) \<Longrightarrow> show_column_headers q"
  by (auto simp: parseLimitLine_def state_of_attempt split: sum.splits)

lemma headers_parseTimelimitLine:
  "show_column_headers (state_of (parseTimelimitLine hz now line q)) \<Longrightarrow> show_column_headers q"
  by (auto simp: parseTimelimitLine_def state_of_attempt split: sum.splits)

lemma headers_parseAuthUserHeader:
  "show_column_headers (state_of (parseAuthUserHeader line find_user q))
   \<Longrightarrow> show_column_headers q"
  by (auto simp: parseAuthUserHeader_def state_of_attempt split: sum.splits)

lemma headers_parseSeparatorsLine:
  "show_column_headers (state_of (parseSeparatorsLine line q)) \<Longrightarrow> show_column_headers q"
  by (auto simp: parseSeparatorsLine_def state_of_attempt split: sum.splits)

lemma headers_parseOutputFormatLine:
  "show_column_headers (state_of (parseOutputFormatLine line q)) \<Longrightarrow> show_column_headers q"
  by (auto simp: parseOutputFormatLine_def state_of_attempt split: sum.splits option.splits)

lemma headers_parseResponseHeaderLine:
  "show_column_headers (state_of (parseResponseHeaderLine line q)) \<Longrightarrow> show_column_headers q"
  by (auto simp: parseResponseHeaderLine_def state_of_attempt split: sum.splits if_splits)

lemma headers_parseKeepAliveLine:
  "show_column_headers (state_of (parseKeepAliveLine line q)) \<Longrightarrow> show_column_headers q"
  by (auto simp: parseKeepAliveLine_def state_of_attempt split: sum.splits if_splits)

lemma headers_parseWaitTriggerLine:
  "show_column_headers (state_of (parseWaitTriggerLine find_trigger line q))
   \<Longrightarrow> show_column_headers q"
  by (auto simp: parseWaitTriggerLine_def state_of_attempt split: sum.splits)

lemma headers_parseWaitObjectLine:
  "show_column_headers (state_of (parseWaitObjectLine line get q)) \<Longrightarrow> show_column_headers q"
  by (auto simp: parseWaitObjectLine_def Let_def split: if_splits)

lemma headers_parseWaitTimeoutLine:
  "show_column_headers (state_of (parseWaitTimeoutLine line q)) \<Longrightarrow> show_column_headers q"
  by (auto simp: parseWaitTimeoutLine_def state_of_attempt split: sum.splits)

lemma headers_parseLocaltimeLine:
  "show_column_headers (state_of (parseLocaltimeLine hz now line q)) \<Longrightarrow> show_column_headers q"
  by (auto simp: parseLocaltimeLine_def state_of_attempt Let_def split: sum.splits if_splits)

lemmas headers_parsers =
  headers_parseFilterLine headers_parseStatsAndOrLine headers_parseStatsNegateLine
  headers_parseStatsLine headers_parseColumnsLine headers_parseColumnHeadersLine
  headers_parseLimitLine headers_parseTimelimitLine headers_parseAuthUserHeader
  headers_parseSeparatorsLine headers_parseOutputFormatLine headers_parseResponseHeaderLine
  headers_parseKeepAliveLine headers_parseWaitTriggerLine headers_parseWaitObjectLine
  headers_parseWaitTimeoutLine headers_parseLocaltimeLine

text \<open>Only a \<^verbatim>\<open>ColumnHeaders: on\<close> line turns the flag on inside the loop over the lines.\<close>
lemma headers_dispatch:
  assumes "show_column_headers (fst (state_of (dispatch env i header line (q, fs, ws))))"
  shows "show_column_headers q
         \<or> (header = ''ColumnHeaders'' \<and> (\<exists>rest. nextStringArgument line = Inr (''on'', rest)))"
  using assms unfolding dispatch_def
  by (auto simp: case_prod_unfold split: if_splits dest: headers_parsers)

lemma any_column_add_default:
  "any_column cs add_default_column q =
     (False, q\<lparr>columns := columns q @ cs,
               all_column_names := all_column_names q \<union> Column_name ` set cs\<rparr>)"
  by (induction cs arbitrary: q) (simp_all add: add_default_column_def)

text \<open>
  C9. A \<^verbatim>\<open>Columns:\<close> line never fails, appends columns (none when it lists no name) and
  leaves \<^verbatim>\<open>show_column_headers\<close> false whatever its value was and whatever the names are.
  Of all headers only \<^verbatim>\<open>ColumnHeaders\<close> with the argument \<^verbatim>\<open>on\<close> turns a false flag into a
  true one, and after the last line only the default branch for empty column lists does.
\<close>
theorem C9_columns_line_disables_headers:
  "(\<exists>cs names. parseColumnsLine line make_column q =
        Done (q\<lparr>columns := columns q @ cs, all_column_names := all_column_names q \<union> names,
                show_column_headers := False\<rparr>))
   \<and> parseColumnsLine [] make_column q = Done (q\<lparr>show_column_headers := False\<rparr>)
   \<and> dispatch env i ''Columns'' line (q, fs, ws) =
       map_Outcome (\<lambda>q'. (q', fs, ws)) (parseColumnsLine line (table_column env) q)
   \<and> (show_column_headers (fst (state_of (dispatch env i header line (q, fs, ws)))) \<longrightarrow>
        show_column_headers q
        \<or> (header = ''ColumnHeaders'' \<and> (\<exists>rest. nextStringArgument line = Inr (''on'', rest))))
   \<and> show_column_headers (fst (finish env ((q, fs, ws), out))) =
       (columns q = [] \<and> stats_columns q = [] \<or> show_column_headers q)"
proof -
  obtain cs names where
    "columns_loop make_column line q =
       q\<lparr>columns := columns q @ cs, all_column_names := all_column_names q \<union> names\<rparr>"
    using columns_loop_frame by blast
  then have "\<exists>cs names. parseColumnsLine line make_column q =
        Done (q\<lparr>columns := columns q @ cs, all_column_names := all_column_names q \<union> names,
                show_column_headers := False\<rparr>)"
    by (auto simp: parseColumnsLine_def)
  moreover have "parseColumnsLine [] make_column q = Done (q\<lparr>show_column_headers := False\<rparr>)"
    by (simp add: parseColumnsLine_def columns_loop.simps)
  moreover have "dispatch env i ''Columns'' line (q, fs, ws) =
       map_Outcome (\<lambda>q'. (q', fs, ws)) (parseColumnsLine line (table_column env) q)"
    by (simp add: dispatch_def)
  moreover have "show_column_headers (fst (finish env ((q, fs, ws), out))) =
       (columns q = [] \<and> stats_columns q = [] \<or> show_column_headers q)"
    by (auto simp: finish_def Let_def any_column_add_default)
  ultimately show ?thesis
    using headers_dispatch [of env i header line q fs ws] by blast
qed

theorem C9_columns_line_disables_headers_witness:
  "parseColumnsLine ''name bogus'' sample_column sample_query =
     Done (sample_query\<lparr>columns :=
              [Column ''name'' ''The name of the service group'' StringColumn,
               Column ''bogus'' ''non-existing column'' NullColumn],
            all_column_names := {''name'', ''bogus''}, show_column_headers := False\<rparr>)
   \<and> \<not> show_column_headers (fst (ParsedQuery_ctor sample_env sample_query
           [''ColumnHeaders: on'', ''Columns: name''] []))
   \<and> show_column_headers (fst (ParsedQuery_ctor sample_env sample_query
           [''ColumnHeaders: on'', ''Columns: name'', ''ColumnHeaders: on''] []))
   \<and> show_column_headers (fst (ParsedQuery_ctor sample_env sample_query
           [''ColumnHeaders: off'', ''Columns:''] []))"
proof -
  have e1: "columns_loop sample_column ''name bogus'' sample_query =
     sample_query\<lparr>columns :=
              [Column ''name'' ''The name of the service group'' StringColumn,
               Column ''bogus'' ''non-existing column'' NullColumn],
            all_column_names := {''name'', ''bogus''}\<rparr>"
    by (simp add: columns_loop.simps lex_defs sample_defs insert_commute)
  obtain cs names where
    "parseColumnsLine ''name bogus'' sample_column sample_query =
       Done (sample_query\<lparr>columns := columns sample_query @ cs,
               all_column_names := all_column_names sample_query \<union> names,
               show_column_headers := False\<rparr>)"
    using C9_columns_line_disables_headers [of "''name bogus''" sample_column sample_query
      sample_env 0 "[]" "[]" "''Columns''" "[]"]
    by blast
  then have p1: "parseColumnsLine ''name bogus'' sample_column sample_query =
     Done (sample_query\<lparr>columns :=
              [Column ''name'' ''The name of the service group'' StringColumn,
               Column ''bogus'' ''non-existing column'' NullColumn],
            all_column_names := {''name'', ''bogus''}, show_column_headers := False\<rparr>)"
    by (simp add: parseColumnsLine_def e1)
  have p2: "\<not> show_column_headers (fst (ParsedQuery_ctor sample_env sample_query
           [''ColumnHeaders: on'', ''Columns: name''] []))"
    and p3: "show_column_headers (fst (ParsedQuery_ctor sample_env sample_query
           [''ColumnHeaders: on'', ''Columns: name'', ''ColumnHeaders: on''] []))"
    and p4: "show_column_headers (fst (ParsedQuery_ctor sample_env sample_query
           [''ColumnHeaders: off'', ''Columns:''] []))"
    by (simp_all add: ctor_defs parseColumnsLine_def parseColumnHeadersLine_def
        columns_loop.simps lex_defs sample_defs any_column_add_default)
  show ?thesis
    using p1 p2 p3 p4 by blast
qed

subsection \<open>Stats lines\<close>

lemma stats_ops_registered:
  "first \<in> {''sum'', ''min'', ''max'', ''avg'', ''std'', ''suminv'', ''avginv''}
   \<Longrightarrow> \<exists>factory. map_of stats_ops first = Some factory"
  by (auto simp: stats_ops_def)

lemma stats_ops_unregistered:
  "first \<notin> {''sum'', ''min'', ''max'', ''avg'', ''std'', ''suminv'', ''avginv''}
   \<Longrightarrow> map_of stats_ops first = None"
  by (simp add: stats_ops_def)

lemma parseStatsLine_Done_headers:
  "parseStatsLine env line make_column q = Done q' \<Longrightarrow> \<not> show_column_headers q'"
  by (auto simp: parseStatsLine_def attempt_def push_stats_column_def Let_def
      split: sum.splits prod.splits option.splits)

text \<open>
  C3. Let \<open>first\<close> be the first token of a \<^verbatim>\<open>Stats:\<close> line. If it is one of the seven
  aggregation names, the next token names a column and the line pushes the aggregating
  column of the registered factory and that column. Otherwise \<open>first\<close> names the column,
  the next token names a relational operator, the rest of the line without its leading
  whitespace (its end untouched) is the right-hand side, and the line pushes the count of
  the filter the column creates at the kind stats. Every \<^verbatim>\<open>Stats:\<close> line that is parsed
  leaves \<^verbatim>\<open>show_column_headers\<close> false, the first one included.
\<close>
theorem C3_stats_line:
  assumes "nextStringArgument line = Inr (first, line1)"
  shows "(first \<in> {''sum'', ''min'', ''max'', ''avg'', ''std'', ''suminv'', ''avginv''} \<longrightarrow>
           (\<exists>factory. map_of stats_ops first = Some factory \<and>
              (\<forall>column_name line2 col.
                 nextStringArgument line1 = Inr (column_name, line2) \<longrightarrow>
                 make_column column_name = Inr col \<longrightarrow>
                 parseStatsLine env line make_column q =
                   Done (q\<lparr>stats_columns := stats_columns q @ [StatsColumnOp factory col],
                           all_column_names := insert column_name (all_column_names q),
                           show_column_headers := False\<rparr>))))
    \<and> (first \<notin> {''sum'', ''min'', ''max'', ''avg'', ''std'', ''suminv'', ''avginv''} \<longrightarrow>
           (\<forall>op_name line2 rel_op col f.
              nextStringArgument line1 = Inr (op_name, line2) \<longrightarrow>
              relationalOperatorForName env op_name = Inr rel_op \<longrightarrow>
              make_column first = Inr col \<longrightarrow>
              createFilter env col Kind_stats rel_op
                (dropWhile (\<lambda>c. c \<in> set whitespace) line2) = Inr f \<longrightarrow>
              parseStatsLine env line make_column q =
                Done (q\<lparr>stats_columns := stats_columns q @ [StatsColumnCount f],
                        all_column_names := insert first (all_column_names q),
                        show_column_headers := False\<rparr>)))
    \<and> (\<forall>q'. parseStatsLine env line make_column q = Done q' \<longrightarrow> \<not> show_column_headers q')
    \<and> dispatch env i ''Stats'' line (q, fs, ws) =
        map_Outcome (\<lambda>q'. (q', fs, ws)) (parseStatsLine env line (table_column env) q)"
proof (intro conjI impI allI)
  assume "first \<in> {''sum'', ''min'', ''max'', ''avg'', ''std'', ''suminv'', ''avginv''}"
  then obtain factory where factory: "map_of stats_ops first = Some factory"
    using stats_ops_registered by blast
  have "parseStatsLine env line make_column q =
          Done (q\<lparr>stats_columns := stats_columns q @ [StatsColumnOp factory col],
                  all_column_names := insert column_name (all_column_names q),
                  show_column_headers := False\<rparr>)"
    if "nextStringArgument line1 = Inr (column_name, line2)"
      and "make_column column_name = Inr col" for column_name line2 col
    using assms factory that by (simp add: parseStatsLine_def push_stats_column_def)
  with factory show "\<exists>factory. map_of stats_ops first = Some factory \<and>
              (\<forall>column_name line2 col.
                 nextStringArgument line1 = Inr (column_name, line2) \<longrightarrow>
                 make_column column_name = Inr col \<longrightarrow>
                 parseStatsLine env line make_column q =
                   Done (q\<lparr>stats_columns := stats_columns q @ [StatsColumnOp factory col],
                           all_column_names := insert column_name (all_column_names q),
                           show_column_headers := False\<rparr>))"
    by blast
next
  fix op_name line2 rel_op col f
  assume "first \<notin> {''sum'', ''min'', ''max'', ''avg'', ''std'', ''suminv'', ''avginv''}"
    and "nextStringArgument line1 = Inr (op_name, line2)"
    and "relationalOperatorForName env op_name = Inr rel_op"
    and "make_column first = Inr col"
    and "createFilter env col Kind_stats rel_op
           (dropWhile (\<lambda>c. c \<in> set whitespace) line2) = Inr f"
  then show "parseStatsLine env line make_column q =
                Done (q\<lparr>stats_columns := stats_columns q @ [StatsColumnCount f],
                        all_column_names := insert first (all_column_names q),
                        show_column_headers := False\<rparr>)"
    using assms stats_ops_unregistered [of first]
    by (simp add: parseStatsLine_def push_stats_column_def skip_whitespace_dropWhile)
next
  fix q'
  assume "parseStatsLine env line make_column q = Done q'"
  then show "\<not> show_column_headers q'" by (rule parseStatsLine_Done_headers)
next
  show "dispatch env i ''Stats'' line (q, fs, ws) =
        map_Outcome (\<lambda>q'. (q', fs, ws)) (parseStatsLine env line (table_column env) q)"
    by (simp add: dispatch_def)
qed

theorem C3_stats_line_witness:
  "nextStringArgument ''sum num_services'' = Inr (''sum'', '' num_services'')
   \<and> parseStatsLine sample_env ''sum num_services'' sample_column sample_query =
       Done (sample_query\<lparr>stats_columns :=
                [StatsColumnOp SumAggregation
                   (Column ''num_services'' ''The total number of services in the group''
                      (IntLambdaColumn num))],
              all_column_names := {''num_services''}, show_column_headers := False\<rparr>)
   \<and> nextStringArgument ''num_services >   0 '' = Inr (''num_services'', '' >   0 '')
   \<and> parseStatsLine sample_env ''num_services >   0 '' sample_column sample_query =
       Done (sample_query\<lparr>stats_columns :=
                [StatsColumnCount
                   (ColumnFilter Kind_stats
                      (Column ''num_services'' ''The total number of services in the group''
                         (IntLambdaColumn num)) ''>'' ''0 '')],
              all_column_names := {''num_services''}, show_column_headers := False\<rparr>)"
proof -
  have h1: "nextStringArgument ''sum num_services'' = Inr (''sum'', '' num_services'')"
    by (simp add: lex_defs)
  have h2: "nextStringArgument ''num_services >   0 '' = Inr (''num_services'', '' >   0 '')"
    by (simp add: lex_defs)
  have col: "sample_column ''num_services'' =
      Inr (Column ''num_services'' ''The total number of services in the group''
             (IntLambdaColumn num))"
    by (simp add: sample_defs)
  have a1: "nextStringArgument '' num_services'' = Inr (''num_services'', [])"
    by (simp add: lex_defs)
  have f1: "''sum'' \<in> {''sum'', ''min'', ''max'', ''avg'', ''std'', ''suminv'', ''avginv''}"
    and f1': "map_of stats_ops ''sum'' = Some SumAggregation"
    by (simp_all add: stats_ops_def)
  have r1: "parseStatsLine sample_env ''sum num_services'' sample_column sample_query =
      Done (sample_query\<lparr>stats_columns := stats_columns sample_query @
                [StatsColumnOp SumAggregation
                   (Column ''num_services'' ''The total number of services in the group''
                      (IntLambdaColumn num))],
              all_column_names := insert ''num_services'' (all_column_names sample_query),
              show_column_headers := False\<rparr>)"
  proof -
    from C3_stats_line [OF h1, of sample_column sample_env sample_query 0 "[]" "[]",
        THEN conjunct1, THEN mp, OF f1]
    obtain factory where factory: "map_of stats_ops ''sum'' = Some factory"
      and op_column: "\<forall>column_name line2 col.
         nextStringArgument '' num_services'' = Inr (column_name, line2) \<longrightarrow>
         sample_column column_name = Inr col \<longrightarrow>
         parseStatsLine sample_env ''sum num_services'' sample_column sample_query =
           Done (sample_query\<lparr>stats_columns :=
                   stats_columns sample_query @ [StatsColumnOp factory col],
                 all_column_names := insert column_name (all_column_names sample_query),
                 show_column_headers := False\<rparr>)"
      by (elim exE conjE)
    from factory f1' have "factory = SumAggregation" by simp
    with op_column [rule_format, OF a1 col] show ?thesis by (simp only:)
  qed
  have a2: "nextStringArgument '' >   0 '' = Inr (''>'', ''   0 '')"
    by (simp add: lex_defs)
  have f2: "''num_services'' \<notin> {''sum'', ''min'', ''max'', ''avg'', ''std'', ''suminv'', ''avginv''}"
    by simp
  have op: "relationalOperatorForName sample_env ''>'' = Inr ''>''"
    by (simp add: sample_env_def)
  have rhs: "dropWhile (\<lambda>c. c \<in> set whitespace) ''   0 '' = ''0 ''"
    by (simp add: whitespace_def)
  have cf: "createFilter sample_env
      (Column ''num_services'' ''The total number of services in the group''
         (IntLambdaColumn num)) Kind_stats ''>'' ''0 '' =
      Inr (ColumnFilter Kind_stats
             (Column ''num_services'' ''The total number of services in the group''
                (IntLambdaColumn num)) ''>'' ''0 '')"
    by (simp add: sample_env_def)
  have r2: "parseStatsLine sample_env ''num_services >   0 '' sample_column sample_query =
      Done (sample_query\<lparr>stats_columns := stats_columns sample_query @
                [StatsColumnCount
                   (ColumnFilter Kind_stats
                      (Column ''num_services'' ''The total number of services in the group''
                         (IntLambdaColumn num)) ''>'' ''0 '')],
              all_column_names := insert ''num_services'' (all_column_names sample_query),
              show_column_headers := False\<rparr>)"
    using C3_stats_line [OF h2, of sample_column sample_env sample_query 0 "[]" "[]",
        THEN conjunct2, THEN conjunct1, THEN mp, OF f2, rule_format, OF a2 op col]
      cf
    by (simp only: rhs)
  have q: "stats_columns sample_query = []" "all_column_names sample_query = {}"
    by (simp_all add: sample_query_def)
  show ?thesis
    using h1 h2 r1 r2 by (simp only: q append_Nil)
qed

subsection \<open>Local time\<close>

lemma chrono_round_nearest:
  assumes "0 < unit"
  shows "\<bar>2 * (d - chrono_round unit d * unit)\<bar> \<le> unit"
proof -
  define r where "r = d mod unit"
  define t0 where "t0 = d div unit"
  define A where "A = t0 * unit"
  have r: "0 \<le> r" "r < unit" using assms by (simp_all add: r_def)
  have d: "d = A + r" by (simp add: r_def A_def t0_def)
  have A1: "(t0 + 1) * unit = A + unit" by (simp add: A_def algebra_simps)
  have diff0: "d - t0 * unit = r" using d by (simp add: A_def)
  have diff1: "(t0 + 1) * unit - d = unit - r" using d A1 by simp
  have c0: "(r = unit - r) = (2 * r = unit)" and c1: "(r < unit - r) = (2 * r < unit)"
    by auto
  have cr: "chrono_round unit d =
      (if 2 * r = unit then (if odd t0 then t0 + 1 else t0)
       else if 2 * r < unit then t0 else t0 + 1)"
    by (simp only: chrono_round_def Let_def diff0 diff1 c0 c1 flip: t0_def)
  have low: "\<bar>2 * (d - t0 * unit)\<bar> \<le> unit" if "2 * r \<le> unit"
    using that r by (simp add: diff0)
  have "d - (t0 + 1) * unit = r - unit" using d A1 by simp
  then have high: "\<bar>2 * (d - (t0 + 1) * unit)\<bar> \<le> unit" if "unit \<le> 2 * r"
    using that r by simp
  consider "2 * r = unit" | "2 * r < unit" | "unit < 2 * r" by linarith
  then show ?thesis
  proof cases
    case 1
    then have "chrono_round unit d = t0 \<or> chrono_round unit d = t0 + 1"
      by (simp add: cr)
    then show ?thesis using low high 1 by auto
  next
    case 2
    then have "chrono_round unit d = t0" by (simp add: cr)
    then show ?thesis using low 2 by simp
  next
    case 3
    then have "chrono_round unit d = t0 + 1" by (simp add: cr)
    then show ?thesis using high 3 by simp
  qed
qed

text \<open>
  C7. A \<^verbatim>\<open>Localtime:\<close> line that is parsed stores a whole number \<open>k\<close> of half hours, in
  seconds: \<open>k\<close> is a nearest one to the difference between the client's time and the
  reading of the server's clock (the difference and \<open>k\<close> half hours are at most a quarter
  of an hour apart), and the stored offset is less than 86400 seconds in absolute value.
  If rounding gives 24 hours or more, the line fails. \<open>hz\<close> is the number of ticks of the
  system clock in a second.
\<close>
theorem C7_localtime:
  assumes "0 < hz"
  shows "(\<forall>q'. parseLocaltimeLine hz now line q = Done q' \<longrightarrow>
            (\<exists>t rest k. nextNonNegativeIntegerArgument line = Inr (t, rest)
               \<and> q' = q\<lparr>timezone_offset := 1800 * k\<rparr>
               \<and> \<bar>2 * ((int t * hz - now) - k * (1800 * hz))\<bar> \<le> 1800 * hz
               \<and> 1800 dvd timezone_offset q'
               \<and> \<bar>timezone_offset q'\<bar> < 86400))
    \<and> (\<forall>t rest. nextNonNegativeIntegerArgument line = Inr (t, rest) \<longrightarrow>
          86400 \<le> \<bar>1800 * chrono_round (1800 * hz) (int t * hz - now)\<bar> \<longrightarrow>
          parseLocaltimeLine hz now line q =
            Raised ''timezone difference greater than or equal to 24 hours'' q)
    \<and> dispatch env i ''Localtime'' line (q, fs, ws) =
        map_Outcome (\<lambda>q'. (q', fs, ws))
          (parseLocaltimeLine (system_clock_hz env) (system_clock_now env i) line q)"
proof (intro conjI impI allI)
  fix q'
  assume parsed: "parseLocaltimeLine hz now line q = Done q'"
  then obtain t rest where arg: "nextNonNegativeIntegerArgument line = Inr (t, rest)"
    by (cases "nextNonNegativeIntegerArgument line") (auto simp: parseLocaltimeLine_def)
  define k where "k = chrono_round (1800 * hz) (int t * hz - now)"
  have small: "\<bar>k\<bar> < 48" and q': "q' = q\<lparr>timezone_offset := 1800 * k\<rparr>"
    using parsed arg by (auto simp: parseLocaltimeLine_def Let_def k_def split: if_splits)
  have "\<bar>2 * ((int t * hz - now) - k * (1800 * hz))\<bar> \<le> 1800 * hz"
    unfolding k_def using assms by (intro chrono_round_nearest) simp
  moreover have "1800 dvd timezone_offset q'" by (simp add: q')
  moreover have "\<bar>timezone_offset q'\<bar> < 86400" using small by (simp add: q' abs_mult)
  ultimately show "\<exists>t rest k. nextNonNegativeIntegerArgument line = Inr (t, rest)
               \<and> q' = q\<lparr>timezone_offset := 1800 * k\<rparr>
               \<and> \<bar>2 * ((int t * hz - now) - k * (1800 * hz))\<bar> \<le> 1800 * hz
               \<and> 1800 dvd timezone_offset q'
               \<and> \<bar>timezone_offset q'\<bar> < 86400"
    using arg q' by blast
next
  fix t rest
  assume "nextNonNegativeIntegerArgument line = Inr (t, rest)"
    and "86400 \<le> \<bar>1800 * chrono_round (1800 * hz) (int t * hz - now)\<bar>"
  then show "parseLocaltimeLine hz now line q =
            Raised ''timezone difference greater than or equal to 24 hours'' q"
    by (simp add: parseLocaltimeLine_def Let_def abs_mult)
next
  show "dispatch env i ''Localtime'' line (q, fs, ws) =
        map_Outcome (\<lambda>q'. (q', fs, ws))
          (parseLocaltimeLine (system_clock_hz env) (system_clock_now env i) line q)"
    by (simp add: dispatch_def)
qed

theorem C7_localtime_witness:
  "(0::int) < 1
   \<and> parseLocaltimeLine 1 1000 ''2801'' sample_query =
       Done (sample_query\<lparr>timezone_offset := 1800\<rparr>)
   \<and> parseLocaltimeLine 1 1000 ''1900'' sample_query =
       Done (sample_query\<lparr>timezone_offset := 0\<rparr>)
   \<and> parseLocaltimeLine 1 10000 ''1900'' sample_query =
       Done (sample_query\<lparr>timezone_offset := - 7200\<rparr>)
   \<and> parseLocaltimeLine 1 1000 ''90000'' sample_query =
       Raised ''timezone difference greater than or equal to 24 hours'' sample_query"
proof -
  have h: "(0::int) < 1" by simp
  have e1: "parseLocaltimeLine 1 1000 ''2801'' sample_query =
      Done (sample_query\<lparr>timezone_offset := 1800\<rparr>)"
    and e2: "parseLocaltimeLine 1 1000 ''1900'' sample_query =
      Done (sample_query\<lparr>timezone_offset := 0\<rparr>)"
    and e3: "parseLocaltimeLine 1 10000 ''1900'' sample_query =
      Done (sample_query\<lparr>timezone_offset := - 7200\<rparr>)"
    by (simp_all add: parseLocaltimeLine_def chrono_round_def lex_defs)
  have a: "nextNonNegativeIntegerArgument ''90000'' = Inr (90000, [])"
    by (simp add: lex_defs)
  have b: "86400 \<le> \<bar>1800 * chrono_round (1800 * 1) (int 90000 * 1 - 1000)\<bar>"
    by (simp add: chrono_round_def)
  have e4: "parseLocaltimeLine 1 1000 ''90000'' sample_query =
      Raised ''timezone difference greater than or equal to 24 hours'' sample_query"
    using C7_localtime [OF h, of 1000 "''90000''" sample_query sample_env 0 "[]" "[]"] a b
    by blast
  show ?thesis
    using h e1 e2 e3 e4 by blast
qed

subsection \<open>Identity elements and the filter roots\<close>

lemma accepts_AndingFilter_make:
  "accepts leaf (AndingFilter_make kind subfilters) r u tz =
     list_all (\<lambda>f. accepts leaf f r u tz) subfilters"
proof (cases subfilters)
  case Nil
  then show ?thesis by (simp add: AndingFilter_make_def)
next
  case (Cons f fs)
  then show ?thesis by (cases fs) (simp_all add: AndingFilter_make_def)
qed

lemma accepts_OringFilter_make:
  "accepts leaf (OringFilter_make kind subfilters) r u tz =
     list_ex (\<lambda>f. accepts leaf f r u tz) subfilters"
proof (cases subfilters)
  case Nil
  then show ?thesis by (simp add: OringFilter_make_def)
next
  case (Cons f fs)
  then show ?thesis by (cases fs) (simp_all add: OringFilter_make_def)
qed

lemma finish_roots:
  "row_filter (fst (finish env ((q, filters, wait_conditions), out))) =
     Some (AndingFilter_make Kind_row filters)"
  "wait_condition (fst (finish env ((q, filters, wait_conditions), out))) =
     Some (AndingFilter_make Kind_wait_condition wait_conditions)"
  by (simp_all add: finish_def Let_def)

text \<open>
  C2. The conjunction made of no subfilter accepts every row and the disjunction made of
  no subfilter accepts none; made of one subfilter, either is that subfilter. In general
  the made conjunction accepts what all subfilters accept and the made disjunction what
  one of them accepts. The constructor's last statements set the row filter to the
  conjunction made of the row stack at the kind row and the wait condition to the
  conjunction made of the wait-condition stack at the kind wait_condition, so a root made
  of an empty stack accepts every row.
\<close>
theorem C2_identity_elements_and_roots:
  "accepts leaf (AndingFilter_make kind []) r u tz
   \<and> \<not> accepts leaf (OringFilter_make kind []) r u tz
   \<and> AndingFilter_make kind [f] = f
   \<and> OringFilter_make kind [f] = f
   \<and> accepts leaf (AndingFilter_make kind subfilters) r u tz =
       list_all (\<lambda>f. accepts leaf f r u tz) subfilters
   \<and> accepts leaf (OringFilter_make kind subfilters) r u tz =
       list_ex (\<lambda>f. accepts leaf f r u tz) subfilters
   \<and> ParsedQuery_ctor env q0 lines out =
       finish env (parse_lines env 0 lines ((initial_query q0, [], []), out))
   \<and> row_filter (fst (finish env ((q, filters, wait_conditions), out'))) =
       Some (AndingFilter_make Kind_row filters)
   \<and> wait_condition (fst (finish env ((q, filters, wait_conditions), out'))) =
       Some (AndingFilter_make Kind_wait_condition wait_conditions)
   \<and> accepts leaf (the (row_filter (fst (finish env ((q, [], wait_conditions), out'))))) r u tz
   \<and> accepts leaf (the (wait_condition (fst (finish env ((q, filters, []), out'))))) r u tz"
  by (simp add: accepts_AndingFilter_make accepts_OringFilter_make finish_roots
      ParsedQuery_ctor_def)
    (simp add: AndingFilter_make_def OringFilter_make_def)

theorem C2_identity_elements_and_roots_witness:
  "row_filter (fst (ParsedQuery_ctor sample_env sample_query [] [])) =
     Some (AndingFilter Kind_row [])
   \<and> wait_condition (fst (ParsedQuery_ctor sample_env sample_query [] [])) =
     Some (AndingFilter Kind_wait_condition [])
   \<and> accepts (\<lambda>col rel_op rhs r u tz. False)
         (the (row_filter (fst (ParsedQuery_ctor sample_env sample_query [] []))))
         (1::nat) ''alice'' 0
   \<and> row_filter (fst (ParsedQuery_ctor sample_env sample_query
         [''Filter: name = foo'', ''Filter: alias ~ bar''] [])) =
     Some (AndingFilter Kind_row [sample_name_is_foo, sample_alias_like_bar])
   \<and> row_filter (fst (ParsedQuery_ctor sample_env sample_query [''Filter: name = foo''] [])) =
     Some sample_name_is_foo"
proof -
  have p0: "parse_lines sample_env 0 [] ((initial_query sample_query, [], []), []) =
      ((initial_query sample_query, [], []), [])"
    by simp
  have p1: "fst (snd (fst (parse_lines sample_env 0 [''Filter: name = foo'']
      ((initial_query sample_query, [], []), [])))) = [sample_name_is_foo]"
    and p2: "fst (snd (fst (parse_lines sample_env 0
      [''Filter: name = foo'', ''Filter: alias ~ bar'']
      ((initial_query sample_query, [], []), [])))) = [sample_name_is_foo, sample_alias_like_bar]"
    by (simp_all add: ctor_defs parseFilterLine_def lex_defs sample_defs)
  note c2 = C2_identity_elements_and_roots
  have r0: "row_filter (fst (ParsedQuery_ctor sample_env sample_query [] [])) =
      Some (AndingFilter_make Kind_row [])"
    and w0: "wait_condition (fst (ParsedQuery_ctor sample_env sample_query [] [])) =
      Some (AndingFilter_make Kind_wait_condition [])"
    using c2 [of "\<lambda>col rel_op rhs r u tz. False" Kind_row "1::nat" "''alice''" 0
        sample_name_is_foo "[]" sample_env sample_query "[]" "[]" "initial_query sample_query"
        "[]" "[]" "[]"]
    by (simp_all add: p0)
  have a0: "accepts (\<lambda>col rel_op rhs r u tz. False) (AndingFilter_make Kind_row [])
      (1::nat) ''alice'' 0"
    using c2 [of "\<lambda>col rel_op rhs r u tz. False" Kind_row "1::nat" "''alice''" 0] by blast
  have r: "row_filter (fst (ParsedQuery_ctor sample_env sample_query lines [])) =
      Some (AndingFilter_make Kind_row
        (fst (snd (fst (parse_lines sample_env 0 lines
          ((initial_query sample_query, [], []), []))))))" for lines
    by (cases "parse_lines sample_env 0 lines ((initial_query sample_query, [], []), [])")
       (auto simp: ParsedQuery_ctor_def finish_roots)
  have r1: "row_filter (fst (ParsedQuery_ctor sample_env sample_query
      [''Filter: name = foo''] [])) = Some (AndingFilter_make Kind_row [sample_name_is_foo])"
    using r [of "[''Filter: name = foo'']"] by (simp only: p1)
  have r2: "row_filter (fst (ParsedQuery_ctor sample_env sample_query
      [''Filter: name = foo'', ''Filter: alias ~ bar''] [])) =
      Some (AndingFilter_make Kind_row [sample_name_is_foo, sample_alias_like_bar])"
    using r [of "[''Filter: name = foo'', ''Filter: alias ~ bar'']"] by (simp only: p2)
  show ?thesis
    using r0 w0 a0 r1 r2 by (simp add: AndingFilter_make_def)
qed

subsection \<open>Default columns\<close>

lemma TableServiceGroups_names:
  "map Column_name TableServiceGroups =
     [''name'', ''alias'', ''notes'', ''notes_url'', ''action_url'', ''members'',
      ''members_with_state'', ''worst_service_state'', ''num_services'', ''num_services_ok'',
      ''num_services_warn'', ''num_services_crit'', ''num_services_unknown'',
      ''num_services_pending'', ''num_services_handled_problems'',
      ''num_services_unhandled_problems'', ''num_services_hard_ok'',
      ''num_services_hard_warn'', ''num_services_hard_crit'', ''num_services_hard_unknown'']"
  by (simp add: TableServiceGroups_def TableServiceGroups_addColumns_def addColumn_def)

lemma addColumns_appends:
  "\<exists>cols. TableServiceGroups_addColumns prefix table = table @ cols \<and> length cols = 20"
  by (simp add: TableServiceGroups_addColumns_def addColumn_def)

lemma finish_default_columns:
  assumes "columns q = []" and "stats_columns q = []"
  shows "fst (finish env ((q, fs, ws), out)) =
           q\<lparr>columns := table_columns env,
             all_column_names := all_column_names q \<union> Column_name ` set (table_columns env),
             show_column_headers := True,
             row_filter := Some (AndingFilter_make Kind_row fs),
             wait_condition := Some (AndingFilter_make Kind_wait_condition ws)\<rparr>"
  using assms by (simp add: finish_def Let_def any_column_add_default)

text \<open>
  C4. Let the loop over the lines of a request end with the query \<open>q\<close>. If \<open>q\<close> has
  neither an output column nor a stats column, the finished query has the columns that
  \<^verbatim>\<open>any_column\<close> visits, in that order, all their names among its column names, and
  \<^verbatim>\<open>show_column_headers\<close> true, whatever the flag was in \<open>q\<close>. For the service group table
  these are the twenty columns of \<^verbatim>\<open>addColumns\<close> in the order of its calls.
\<close>
theorem C4_default_columns:
  assumes "parse_lines env 0 lines ((initial_query q0, [], []), out) = ((q, fs, ws), out')"
    and "columns q = []" and "stats_columns q = []"
  shows "columns (fst (ParsedQuery_ctor env q0 lines out)) = table_columns env
    \<and> show_column_headers (fst (ParsedQuery_ctor env q0 lines out))
    \<and> all_column_names (fst (ParsedQuery_ctor env q0 lines out)) =
        all_column_names q \<union> Column_name ` set (table_columns env)
    \<and> (table_columns env = TableServiceGroups \<longrightarrow>
         map Column_name (columns (fst (ParsedQuery_ctor env q0 lines out))) =
           [''name'', ''alias'', ''notes'', ''notes_url'', ''action_url'', ''members'',
            ''members_with_state'', ''worst_service_state'', ''num_services'',
            ''num_services_ok'', ''num_services_warn'', ''num_services_crit'',
            ''num_services_unknown'', ''num_services_pending'',
            ''num_services_handled_problems'', ''num_services_unhandled_problems'',
            ''num_services_hard_ok'', ''num_services_hard_warn'', ''num_services_hard_crit'',
            ''num_services_hard_unknown''])"
proof -
  have "fst (ParsedQuery_ctor env q0 lines out) =
           q\<lparr>columns := table_columns env,
             all_column_names := all_column_names q \<union> Column_name ` set (table_columns env),
             show_column_headers := True,
             row_filter := Some (AndingFilter_make Kind_row fs),
             wait_condition := Some (AndingFilter_make Kind_wait_condition ws)\<rparr>"
    using finish_default_columns [OF assms(2,3)] assms(1)
    by (simp only: ParsedQuery_ctor_def)
  then show ?thesis
    by (simp add: TableServiceGroups_names)
qed

theorem C4_default_columns_witness:
  "columns (fst (ParsedQuery_ctor sample_env sample_query
       [''ColumnHeaders: off'', ''Columns:'', ''Stats: sum bogus''] [])) = TableServiceGroups
   \<and> show_column_headers (fst (ParsedQuery_ctor sample_env sample_query
       [''ColumnHeaders: off'', ''Columns:'', ''Stats: sum bogus''] []))
   \<and> map Column_name (columns (fst (ParsedQuery_ctor sample_env sample_query
       [''ColumnHeaders: off'', ''Columns:'', ''Stats: sum bogus''] []))) =
       [''name'', ''alias'', ''notes'', ''notes_url'', ''action_url'', ''members'',
        ''members_with_state'', ''worst_service_state'', ''num_services'',
        ''num_services_ok'', ''num_services_warn'', ''num_services_crit'',
        ''num_services_unknown'', ''num_services_pending'',
        ''num_services_handled_problems'', ''num_services_unhandled_problems'',
        ''num_services_hard_ok'', ''num_services_hard_warn'', ''num_services_hard_crit'',
        ''num_services_hard_unknown'']"
proof -
  have p: "parse_lines sample_env 0 [''ColumnHeaders: off'', ''Columns:'', ''Stats: sum bogus'']
      ((initial_query sample_query, [], []), []) =
      ((initial_query sample_query\<lparr>show_column_headers := False\<rparr>, [], []),
       [setError bad_request
          (error_message ''Stats'' ''servicegroups'' ''table has no column bogus'')])"
    by (simp add: process_line_def header_of_def arguments_of_def dispatch_def
        initial_query_def parseColumnsLine_def parseColumnHeadersLine_def parseStatsLine_def
        stats_ops_def columns_loop.simps lex_defs sample_defs)
  have c: "columns (initial_query sample_query\<lparr>show_column_headers := False\<rparr>) = []"
    and s: "stats_columns (initial_query sample_query\<lparr>show_column_headers := False\<rparr>) = []"
    by (simp_all add: initial_query_def)
  have t: "table_columns sample_env = TableServiceGroups"
    by (simp add: sample_env_def)
  from C4_default_columns [OF p c s]
  have k: "columns (fst (ParsedQuery_ctor sample_env sample_query
       [''ColumnHeaders: off'', ''Columns:'', ''Stats: sum bogus''] [])) =
       table_columns sample_env"
    and sh: "show_column_headers (fst (ParsedQuery_ctor sample_env sample_query
       [''ColumnHeaders: off'', ''Columns:'', ''Stats: sum bogus''] []))"
    by blast+
  show ?thesis
    by (simp add: k sh t TableServiceGroups_names)
qed

subsection \<open>The authorization principal\<close>





subsection \<open>Lines that fail\<close>

























text \<open>A header that is none of the known ones fails.\<close>
lemma dispatch_undefined_header:
  assumes "header \<notin> {''Filter'', ''Or'', ''And'', ''Negate'', ''StatsOr'', ''StatsAnd'',
      ''StatsNegate'', ''Stats'', ''Columns'', ''ColumnHeaders'', ''Limit'', ''Timelimit'',
      ''AuthUser'', ''Separators'', ''OutputFormat'', ''ResponseHeader'', ''KeepAlive'',
      ''WaitCondition'', ''WaitConditionAnd'', ''WaitConditionOr'', ''WaitConditionNegate'',
      ''WaitTrigger'', ''WaitObject'', ''WaitTimeout'', ''Localtime''}"
  shows "dispatch env i header line st = Raised ''undefined request header'' st"
  using assms by (cases st) (simp add: dispatch_def)

text \<open>Each turn of the loop hands the output buffer at most one error, so the buffer only
  grows; the statements after the loop add the response header mode.\<close>
lemma process_line_output:
  "\<exists>errs. snd (process_line env i (st, out) line_str) = out @ errs \<and> length errs \<le> 1"
  by (cases st) (auto simp: process_line_def split: Outcome.splits)





end
